theory Spec2Isabelle
  imports Main "HOL-Library.Word"
begin

unbundle bit_operations_syntax

section \<open>OpenGL context lifecycle of \<open>GlContext.cpp\<close>\<close>

text \<open>
  A shallow embedding of \<open>src/SFML/Window/GlContext.cpp\<close>: the per-thread record of the
  current context, the issue of context identities, activation and deactivation, transient
  contexts, the registry of unshared OpenGL objects, and the negotiation of the context
  settings. Machine integers are words: \<open>std::uint64_t\<close> is \<open>64 word\<close>, \<open>unsigned int\<close>
  and \<open>int\<close> are \<open>32 word\<close> (read with \<open>unat\<close> and \<open>sint\<close>).
\<close>

type_synonym u64 = "64 word"
type_synonym u32 = "32 word"

subsection \<open>Context identities (\<open>GlContext::Impl::id\<close>)\<close>

text \<open>
  \<open>std::atomic<std::uint64_t>::fetch_add\<close>: returns the value held before the addition,
  together with the value stored afterwards. The atomic operations of all threads are
  totally ordered, so the counter is a state threaded through them in that order.
\<close>

definition fetch_add :: "u64 \<Rightarrow> u64 \<Rightarrow> u64 \<times> u64" where
  "fetch_add atomicId arg = (atomicId, atomicId + arg)"

text \<open>\<open>static std::atomic<std::uint64_t> atomicId(1)\<close>: start at 1, zero is "no context".\<close>

definition atomicId_init :: u64 where
  "atomicId_init = 1"

text \<open>The initialiser of \<open>Impl::id\<close>: \<open>return atomicId.fetch_add(1)\<close>.\<close>

definition Impl_id :: "u64 \<Rightarrow> u64 \<times> u64" where
  "Impl_id atomicId = fetch_add atomicId 1"

text \<open>The identities of \<open>n\<close> contexts constructed one after the other.\<close>

fun constructed_ids :: "nat \<Rightarrow> u64 \<Rightarrow> u64 list" where
  "constructed_ids 0 atomicId = []"
| "constructed_ids (Suc n) atomicId =
     (case Impl_id atomicId of (i, atomicId') \<Rightarrow> i # constructed_ids n atomicId')"

subsection \<open>Context settings and diagnostics\<close>

text \<open>
  \<open>sf::ContextSettings\<close>. The header is not part of the sources at hand; the members are the
  ones \<open>GlContext.cpp\<close> reads and writes.
\<close>

record ContextSettings =
  depthBits :: u32
  stencilBits :: u32
  antialiasingLevel :: u32
  majorVersion :: u32
  minorVersion :: u32
  attributeFlags :: u32
  sRgbCapable :: bool

text \<open>
  The enumerators \<open>ContextSettings::Default\<close>, \<open>ContextSettings::Core\<close> and
  \<open>ContextSettings::Debug\<close> are declared in the same absent header. Their values are taken
  as a parameter of every function that uses them.
\<close>

record Attribute =
  Default :: u32
  Core :: u32
  Debug :: u32

text \<open>
  The stream \<open>sf::err()\<close>: every statement \<open>err() << ... << errEndl\<close> writes one
  diagnostic. A diagnostic of fixed text is a \<open>Line\<close>; the two diagnostics that print
  data carry the data.
\<close>

datatype diagnostic =
    Line string
  | UnparsableVersion string
  | SettingsNotMet ContextSettings ContextSettings

subsection \<open>Per-thread state\<close>

text \<open>
  A context object, as far as activation is concerned: its constant identity
  \<open>m_impl->id\<close> and its address. A \<open>GlContext*\<close> is modelled by the object it points to.
\<close>

record GlContext =
  impl_id :: u64
  addr :: nat

text \<open>\<open>GlContextImpl::CurrentContext\<close>, one per thread.\<close>

record CurrentContext =
  id_cc :: u64
  ptr :: "GlContext option"
  transientCount :: u32

text \<open>
  \<open>sf::GraphicsContext\<close> is not part of the sources at hand. It owns the shared context.
\<close>

record GraphicsContext =
  sharedContext :: GlContext

text \<open>
  \<open>struct TransientContext\<close>: the reference to the graphics context. The member
  \<open>sharedContextLock\<close> owns the recursive mutex from construction to destruction; the
  member \<open>context\<close> is never set.
\<close>

record TransientContext =
  graphicsContext :: GraphicsContext

text \<open>
  The thread-local variables of one thread, \<open>CurrentContext::get()\<close> and
  \<open>TransientContext::get()\<close>, together with the diagnostics the thread has written.
\<close>

record Thread =
  currentContext :: CurrentContext
  transientContext :: "TransientContext option"
  err :: "diagnostic list"

definition err_write :: "diagnostic \<Rightarrow> Thread \<Rightarrow> Thread" where
  "err_write d t = t\<lparr>err := err t @ [d]\<rparr>"

text \<open>A failed \<open>assert\<close> terminates the program: it is an error value.\<close>

datatype error = AssertionFailed string


definition getActiveContextId :: "Thread \<Rightarrow> u64" where
  "getActiveContextId t = id_cc (currentContext t)"

definition hasActiveContext :: "Thread \<Rightarrow> bool" where
  "hasActiveContext t = (getActiveContextId t \<noteq> 0)"

subsection \<open>Activation (\<open>GlContext::setActive\<close>, \<open>GlContext::~GlContext\<close>)\<close>

text \<open>
  The pure virtual \<open>makeCurrent\<close> belongs to the platform: \<open>makeCurrent c current\<close> is
  the answer of the platform for the context \<open>c\<close>. Taking and releasing the recursive
  mutex leaves no trace in the state of the thread.
\<close>

definition setActive ::
  "(GlContext \<Rightarrow> bool \<Rightarrow> bool) \<Rightarrow> GlContext \<Rightarrow> bool \<Rightarrow> Thread \<Rightarrow> bool \<times> Thread" where
  "setActive makeCurrent self active t =
     (let cc = currentContext t in
      if active \<and> impl_id self = id_cc cc then (True, t)
      else if \<not> active \<and> impl_id self \<noteq> id_cc cc then (True, t)
      else if active then
        (if \<not> makeCurrent self True
         then (False, err_write (Line ''makeCurrent(true) failure in GlContext::setActive'') t)
         else (True, t\<lparr>currentContext := cc\<lparr>id_cc := impl_id self, ptr := Some self\<rparr>\<rparr>))
      else
        (if \<not> makeCurrent self False
         then (False, err_write (Line ''makeCurrent(false) failure in GlContext::setActive'') t)
         else (True, t\<lparr>currentContext := cc\<lparr>id_cc := 0, ptr := None\<rparr>\<rparr>)))"

definition GlContext_destructor :: "GlContext \<Rightarrow> Thread \<Rightarrow> Thread" where
  "GlContext_destructor self t =
     (let cc = currentContext t in
      if impl_id self = id_cc cc
      then t\<lparr>currentContext := cc\<lparr>id_cc := 0, ptr := None\<rparr>\<rparr>
      else t)"

subsection \<open>Transient contexts\<close>

text \<open>
  Modelled from the spec: \<open>GraphicsContext::setActive\<close>, whose definition is not part of the
  sources at hand. The graphics context activates, or deactivates, the shared context.
\<close>

definition GraphicsContext_setActive ::
  "(GlContext \<Rightarrow> bool \<Rightarrow> bool) \<Rightarrow> GraphicsContext \<Rightarrow> bool \<Rightarrow> Thread \<Rightarrow> bool \<times> Thread" where
  "GraphicsContext_setActive makeCurrent gc active t =
     setActive makeCurrent (sharedContext gc) active t"

text \<open>The constructor of \<open>TransientContext\<close>, run by \<open>TransientContext::get().emplace\<close>.\<close>

definition TransientContext_emplace ::
  "(GlContext \<Rightarrow> bool \<Rightarrow> bool) \<Rightarrow> GraphicsContext \<Rightarrow> Thread \<Rightarrow> error + Thread" where
  "TransientContext_emplace makeCurrent theGraphicsContext t =
     (if hasActiveContext t
      then Inl (AssertionFailed ''Another context is active on the current thread'')
      else
        (case GraphicsContext_setActive makeCurrent theGraphicsContext True t of
           (ok, t') \<Rightarrow>
             Inr ((if \<not> ok
                   then err_write (Line ''Error enabling shared context in TransientContext()'') t'
                   else t')
                  \<lparr>transientContext := Some \<lparr>graphicsContext = theGraphicsContext\<rparr>\<rparr>)))"

text \<open>The destructor of \<open>TransientContext\<close>, run by \<open>TransientContext::get().reset()\<close>.\<close>

definition TransientContext_reset ::
  "(GlContext \<Rightarrow> bool \<Rightarrow> bool) \<Rightarrow> Thread \<Rightarrow> Thread" where
  "TransientContext_reset makeCurrent t =
     (case transientContext t of
        None \<Rightarrow> t
      | Some tc \<Rightarrow>
          (case GraphicsContext_setActive makeCurrent (graphicsContext tc) False t of
             (ok, t') \<Rightarrow>
               (if \<not> ok
                then err_write (Line ''Error disabling shared context in ~TransientContext()'') t'
                else t')
               \<lparr>transientContext := None\<rparr>))"

definition acquireTransientContext ::
  "(GlContext \<Rightarrow> bool \<Rightarrow> bool) \<Rightarrow> GraphicsContext \<Rightarrow> Thread \<Rightarrow> error + Thread" where
  "acquireTransientContext makeCurrent gc t =
     (let cc = currentContext t in
      if id_cc cc \<noteq> 0
      then Inr (t\<lparr>currentContext := cc\<lparr>transientCount := transientCount cc + 1\<rparr>\<rparr>)
      else if transientCount cc \<noteq> 0
      then Inl (AssertionFailed ''Transient count cannot be non-zero'')
      else if transientContext t \<noteq> None
      then Inl (AssertionFailed ''!TransientContext::get().has_value()'')
      else
        (case TransientContext_emplace makeCurrent gc t of
           Inl e \<Rightarrow> Inl e
         | Inr t' \<Rightarrow>
             if id_cc (currentContext t') = 0
             then Inl (AssertionFailed ''Current context ID cannot be zero'')
             else Inr t'))"

definition releaseTransientContext ::
  "(GlContext \<Rightarrow> bool \<Rightarrow> bool) \<Rightarrow> Thread \<Rightarrow> error + Thread" where
  "releaseTransientContext makeCurrent t =
     (let cc = currentContext t in
      if id_cc cc = 0
      then Inl (AssertionFailed ''Current context ID cannot be zero'')
      else if transientCount cc > 0
      then Inr (t\<lparr>currentContext := cc\<lparr>transientCount := transientCount cc - 1\<rparr>\<rparr>)
      else if transientContext t = None
      then Inl (AssertionFailed ''TransientContext::get().has_value()'')
      else Inr (TransientContext_reset makeCurrent t))"

text \<open>A sequence of \<open>n\<close> calls of the same operation; the first failed assertion ends it.\<close>

fun repeat_calls :: "nat \<Rightarrow> (Thread \<Rightarrow> error + Thread) \<Rightarrow> Thread \<Rightarrow> error + Thread" where
  "repeat_calls 0 f t = Inr t"
| "repeat_calls (Suc n) f t =
     (case f t of Inl e \<Rightarrow> Inl e | Inr t' \<Rightarrow> repeat_calls n f t')"

text \<open>\<open>n\<close> acquisitions followed by \<open>n\<close> releases.\<close>

definition acquire_then_release ::
  "(GlContext \<Rightarrow> bool \<Rightarrow> bool) \<Rightarrow> GraphicsContext \<Rightarrow> nat \<Rightarrow> Thread \<Rightarrow> error + Thread" where
  "acquire_then_release makeCurrent gc n t =
     (case repeat_calls n (acquireTransientContext makeCurrent gc) t of
        Inl e \<Rightarrow> Inl e
      | Inr t' \<Rightarrow> repeat_calls n (releaseTransientContext makeCurrent) t')"


subsection \<open>Unshared OpenGL objects\<close>

text \<open>
  A \<open>std::shared_ptr<void>\<close> is the address it holds, \<open>None\<close> when it is empty; two of
  them are equal when they hold the same address.
\<close>

type_synonym shared_ptr = "nat option"

record UnsharedGlObject =
  contextId :: u64
  object :: shared_ptr

type_synonym UnsharedGlObjects = "UnsharedGlObject list"

text \<open>
  The static \<open>std::weak_ptr<UnsharedGlObjects>\<close> is \<open>Some\<close> of the list while a context
  owns it and \<open>None\<close> once it has expired. Every function below runs under the mutex of
  the list, from its first statement to its last.
\<close>

text \<open>
  \<open>registerUnsharedGlObject\<close> moves the caller's pointer into the new entry: the function
  returns the list and what is left in the caller's pointer.
\<close>

definition registerUnsharedGlObject ::
  "Thread \<Rightarrow> shared_ptr \<Rightarrow> UnsharedGlObjects option \<Rightarrow> UnsharedGlObjects option \<times> shared_ptr" where
  "registerUnsharedGlObject t objectSharedPtr weakUnsharedGlObjects =
     (case weakUnsharedGlObjects of
        None \<Rightarrow> (None, objectSharedPtr)
      | Some unsharedGlObjects \<Rightarrow>
          (Some (unsharedGlObjects @
                   [\<lparr>contextId = getActiveContextId t, object = objectSharedPtr\<rparr>]),
           None))"

text \<open>
  Modelled from the spec: \<open>findIf\<close> of \<open>SFML/System/AlgorithmUtils.hpp\<close>, which is not part
  of the sources at hand. It finds the first entry that satisfies the predicate: the result
  is the position of that entry, and the length of the list (the end iterator) when there
  is none.
\<close>

fun findIf :: "('a \<Rightarrow> bool) \<Rightarrow> 'a list \<Rightarrow> nat" where
  "findIf p [] = 0"
| "findIf p (x # xs) = (if p x then 0 else Suc (findIf p xs))"

text \<open>\<open>std::vector::erase\<close> at a position before the end.\<close>

definition erase :: "'a list \<Rightarrow> nat \<Rightarrow> 'a list" where
  "erase xs i = take i xs @ drop (Suc i) xs"

definition unregisterUnsharedGlObject ::
  "Thread \<Rightarrow> shared_ptr \<Rightarrow> UnsharedGlObjects option \<Rightarrow> UnsharedGlObjects option" where
  "unregisterUnsharedGlObject t objectSharedPtr weakUnsharedGlObjects =
     (case weakUnsharedGlObjects of
        None \<Rightarrow> None
      | Some unsharedGlObjects \<Rightarrow>
          (let currentContextId = getActiveContextId t;
               iter = findIf (\<lambda>obj. contextId obj = currentContextId \<and>
                                     object obj = objectSharedPtr) unsharedGlObjects
           in if iter \<noteq> length unsharedGlObjects
              then Some (erase unsharedGlObjects iter)
              else Some unsharedGlObjects))"

text \<open>
  The loop of \<open>cleanupUnsharedResources\<close>: \<open>iter\<close> is a position in the vector, an entry
  of the dying context is erased at \<open>iter\<close>, any other entry is stepped over.
\<close>

function cleanup_loop :: "u64 \<Rightarrow> nat \<Rightarrow> UnsharedGlObjects \<Rightarrow> UnsharedGlObjects" where
  "cleanup_loop i iter unsharedGlObjects =
     (if iter < length unsharedGlObjects
      then (if contextId (unsharedGlObjects ! iter) = i
            then cleanup_loop i iter (erase unsharedGlObjects iter)
            else cleanup_loop i (Suc iter) unsharedGlObjects)
      else unsharedGlObjects)"
  by pat_completeness auto
termination
  by (relation "measure (\<lambda>(i, iter, objs). length objs - iter)") (auto simp: erase_def)

declare cleanup_loop.simps [simp del]

text \<open>
  \<open>cleanupUnsharedResources\<close>, on the state of the calling thread and the list the context
  owns through \<open>m_impl->unsharedGlObjects\<close>.
\<close>

definition cleanupUnsharedResources ::
  "(GlContext \<Rightarrow> bool \<Rightarrow> bool) \<Rightarrow> GlContext \<Rightarrow> Thread \<Rightarrow> UnsharedGlObjects
     \<Rightarrow> Thread \<times> UnsharedGlObjects" where
  "cleanupUnsharedResources makeCurrent self t unsharedGlObjects =
     (let cc = currentContext t;
          contextToRestore = (if impl_id self = id_cc cc then None else ptr cc);
          t1 = (case setActive makeCurrent self True t of
                  (ok, t') \<Rightarrow>
                    if \<not> ok
                    then err_write
                           (Line ''Could not enable context in GlContext::cleanupUnsharedResources()'') t'
                    else t');
          objs = cleanup_loop (impl_id self) 0 unsharedGlObjects;
          t2 = (case contextToRestore of
                  None \<Rightarrow> t1
                | Some r \<Rightarrow>
                    (case setActive makeCurrent r True t1 of
                       (ok, t') \<Rightarrow>
                         if \<not> ok
                         then err_write
                                (Line ''Could not restore context in GlContext::cleanupUnsharedResources()'') t'
                         else t'))
      in (t2, objs))"


subsection \<open>The OpenGL driver\<close>

type_synonym GLenum = u32

text \<open>The constants \<open>GlContext.cpp\<close> defines when the OpenGL header does not.\<close>

definition GL_MULTISAMPLE :: GLenum where "GL_MULTISAMPLE = 0x809D"
definition GL_MAJOR_VERSION :: GLenum where "GL_MAJOR_VERSION = 0x821B"
definition GL_MINOR_VERSION :: GLenum where "GL_MINOR_VERSION = 0x821C"
definition GL_NUM_EXTENSIONS :: GLenum where "GL_NUM_EXTENSIONS = 0x821D"
definition GL_CONTEXT_FLAGS :: GLenum where "GL_CONTEXT_FLAGS = 0x821E"
definition GL_FRAMEBUFFER_SRGB :: GLenum where "GL_FRAMEBUFFER_SRGB = 0x8DB9"
definition GL_CONTEXT_FLAG_DEBUG_BIT :: u32 where "GL_CONTEXT_FLAG_DEBUG_BIT = 0x00000002"
definition GL_CONTEXT_PROFILE_MASK :: GLenum where "GL_CONTEXT_PROFILE_MASK = 0x9126"
definition GL_CONTEXT_CORE_PROFILE_BIT :: u32 where "GL_CONTEXT_CORE_PROFILE_BIT = 0x00000001"

text \<open>The constants of \<open>glad/gl.h\<close> that the file uses, with their OpenGL values.\<close>

definition GL_INVALID_ENUM :: GLenum where "GL_INVALID_ENUM = 0x0500"
definition GL_VERSION :: GLenum where "GL_VERSION = 0x1F02"
definition GL_EXTENSIONS :: GLenum where "GL_EXTENSIONS = 0x1F03"
definition GL_FALSE :: "8 word" where "GL_FALSE = 0"

text \<open>
  What the platform and the driver answer while a context is initialised:
  \<^item> \<open>getFunction name\<close>: whether the function pointer of that name is not null;
  \<^item> \<open>glGetIntegerv pname\<close>: the value the query writes to its parameter, \<open>None\<close> when it
    leaves the parameter untouched;
  \<^item> \<open>glGetError\<close>: the error code read after the two version queries;
  \<^item> \<open>glGetString name\<close>: the string, \<open>None\<close> for a null pointer;
  \<^item> \<open>glGetStringi name index\<close>: the indexed string;
  \<^item> \<open>glIsEnabled cap\<close>: the answer after \<open>glEnable cap\<close>.
\<close>

record Driver =
  getFunction :: "string \<Rightarrow> bool"
  glGetIntegerv :: "GLenum \<Rightarrow> u32 option"
  glGetError :: GLenum
  glGetString :: "GLenum \<Rightarrow> string option"
  glGetStringi :: "GLenum \<Rightarrow> u32 \<Rightarrow> string"
  glIsEnabled :: "GLenum \<Rightarrow> 8 word"

text \<open>\<open>int x = init; glGetIntegervFunc(pname, &x);\<close> and the value of \<open>x\<close> afterwards.\<close>

definition query_int :: "Driver \<Rightarrow> GLenum \<Rightarrow> u32 \<Rightarrow> u32" where
  "query_int d pname init = (case glGetIntegerv d pname of None \<Rightarrow> init | Some v \<Rightarrow> v)"

subsection \<open>Version strings\<close>

text \<open>\<open>std::isdigit\<close> on the characters \<open>0\<close> to \<open>9\<close>.\<close>

definition isdigit :: "char \<Rightarrow> bool" where
  "isdigit c = (48 \<le> (of_char c :: nat) \<and> (of_char c :: nat) \<le> 57)"

text \<open>
  The lambda \<open>parseVersionString\<close>. A C string is the list of its characters before the
  terminating zero. The lambda writes \<open>major\<close> and \<open>minor\<close> and returns true, or writes
  nothing and returns false: the model returns the pair written, or \<open>None\<close>.
\<close>

definition parseVersionString :: "string \<Rightarrow> string \<Rightarrow> (u32 \<times> u32) option" where
  "parseVersionString versionString prefix =
     (let prefixLength = length prefix in
      if length versionString \<ge> prefixLength + 3 \<and>
         take prefixLength versionString = prefix \<and>
         isdigit (versionString ! prefixLength) \<and>
         versionString ! (prefixLength + 1) = CHR ''.'' \<and>
         isdigit (versionString ! (prefixLength + 2))
      then Some (of_nat (of_char (versionString ! prefixLength) - 48),
                 of_nat (of_char (versionString ! (prefixLength + 2)) - 48))
      else None)"

subsection \<open>Initialisation (\<open>GlContext::initialize\<close>)\<close>

text \<open>
  The retrieval of the version number: the two integer queries, the test of the error code
  and, after \<open>GL_INVALID_ENUM\<close>, the four attempts on the version string. The result is
  the pair stored in \<open>m_settings.majorVersion\<close> and \<open>m_settings.minorVersion\<close>.
\<close>

definition initialize_version :: "Driver \<Rightarrow> Thread \<Rightarrow> (u32 \<times> u32) \<times> Thread" where
  "initialize_version d t =
     (let majorVersion = query_int d GL_MAJOR_VERSION 0;
          minorVersion = query_int d GL_MINOR_VERSION 0
      in if glGetError d \<noteq> GL_INVALID_ENUM
         then ((majorVersion, minorVersion), t)
         else
           (case glGetString d GL_VERSION of
              None \<Rightarrow>
                ((1, 1),
                 err_write (Line ''Unable to retrieve OpenGL version string, defaulting to 1.1'') t)
            | Some version \<Rightarrow>
                (case parseVersionString version ''OpenGL ES-CL '' of
                   Some v \<Rightarrow> (v, t)
                 | None \<Rightarrow>
                (case parseVersionString version ''OpenGL ES-CM '' of
                   Some v \<Rightarrow> (v, t)
                 | None \<Rightarrow>
                (case parseVersionString version ''OpenGL ES '' of
                   Some v \<Rightarrow> (v, t)
                 | None \<Rightarrow>
                (case parseVersionString version [] of
                   Some v \<Rightarrow> (v, t)
                 | None \<Rightarrow> ((1, 1), err_write (UnparsableVersion version) t)))))))"

text \<open>\<open>std::strstr(haystack, needle) != nullptr\<close>.\<close>

fun strstr :: "string \<Rightarrow> string \<Rightarrow> bool" where
  "strstr [] needle = (needle = [])"
| "strstr (c # cs) needle =
     (take (length needle) (c # cs) = needle \<or> strstr cs needle)"

text \<open>
  The loop over the extension strings of a 3.1 context: true when it leaves through
  \<open>break\<close>, that is when some extension string contains \<open>GL_ARB_compatibility\<close>.
\<close>

function extension_loop :: "Driver \<Rightarrow> nat \<Rightarrow> nat \<Rightarrow> bool" where
  "extension_loop d i numExtensions =
     (if i < numExtensions
      then (if strstr (glGetStringi d GL_EXTENSIONS (of_nat i)) ''GL_ARB_compatibility''
            then True
            else extension_loop d (Suc i) numExtensions)
      else False)"
  by pat_completeness auto
termination
  by (relation "measure (\<lambda>(d, i, n). n - i)") auto

declare extension_loop.simps [simp del]

text \<open>The attribute flags of a context of the given version.\<close>

definition initialize_attributes :: "Attribute \<Rightarrow> Driver \<Rightarrow> u32 \<Rightarrow> u32 \<Rightarrow> u32" where
  "initialize_attributes attr d major minor =
     (let attributeFlags0 = Default attr in
      if major \<ge> 3
      then
        (let flags = query_int d GL_CONTEXT_FLAGS 0;
             attributeFlags1 =
               (if flags AND GL_CONTEXT_FLAG_DEBUG_BIT \<noteq> 0
                then attributeFlags0 OR Debug attr
                else attributeFlags0)
         in if major = 3 \<and> minor = 1
            then
              (let attributeFlags2 = attributeFlags1 OR Core attr in
               if getFunction d ''glGetStringi''
               then
                 (let numExtensions = query_int d GL_NUM_EXTENSIONS 0 in
                  if extension_loop d 0 (unat numExtensions)
                  then attributeFlags2 AND NOT (Core attr)
                  else attributeFlags2)
               else attributeFlags2)
            else if major > 3 \<or> minor \<ge> 2
            then
              (let profile = query_int d GL_CONTEXT_PROFILE_MASK 0 in
               if profile AND GL_CONTEXT_CORE_PROFILE_BIT \<noteq> 0
               then attributeFlags1 OR Core attr
               else attributeFlags1)
            else attributeFlags1)
      else attributeFlags0)"

definition initialize ::
  "Attribute \<Rightarrow> (GlContext \<Rightarrow> bool \<Rightarrow> bool) \<Rightarrow> Driver \<Rightarrow> GlContext \<Rightarrow> ContextSettings
     \<Rightarrow> ContextSettings \<Rightarrow> Thread \<Rightarrow> bool \<times> ContextSettings \<times> Thread" where
  "initialize attr makeCurrent d self m_settings requestedSettings t =
     (let t1 = (case setActive makeCurrent self True t of
                  (ok, t') \<Rightarrow>
                    if \<not> ok
                    then err_write (Line ''Error enabling context in GlContext::initalize()'') t'
                    else t')
      in if \<not> getFunction d ''glGetIntegerv'' \<or> \<not> getFunction d ''glGetError'' \<or>
            \<not> getFunction d ''glGetString'' \<or> \<not> getFunction d ''glEnable'' \<or>
            \<not> getFunction d ''glIsEnabled''
         then (False, m_settings,
               err_write (Line ''Could not load necessary function to initialize OpenGL context'') t1)
         else
           (case initialize_version d t1 of
              ((major, minor), t2) \<Rightarrow>
                (let m1 = m_settings\<lparr>majorVersion := major, minorVersion := minor,
                                      attributeFlags := initialize_attributes attr d major minor\<rparr>;
                     m2 = (if antialiasingLevel requestedSettings > 0 \<and> antialiasingLevel m1 > 0
                           then m1
                           else m1\<lparr>antialiasingLevel := 0\<rparr>)
                 in if sRgbCapable requestedSettings \<and> sRgbCapable m2
                    then
                      (if glIsEnabled d GL_FRAMEBUFFER_SRGB = GL_FALSE
                       then (True, m2\<lparr>sRgbCapable := False\<rparr>,
                             err_write (Line ''Warning: Failed to enable GL_FRAMEBUFFER_SRGB'') t2)
                       else (True, m2, t2))
                    else (True, m2\<lparr>sRgbCapable := False\<rparr>, t2))))"

subsection \<open>Checking the settings and creating a context\<close>

text \<open>
  \<open>GlContext::checkSettings\<close>: the two versions are computed in \<open>unsigned int\<close> and
  compared as \<open>int\<close>. The only effect is the warning.
\<close>

definition checkSettings :: "ContextSettings \<Rightarrow> ContextSettings \<Rightarrow> Thread \<Rightarrow> Thread" where
  "checkSettings m_settings requestedSettings t =
     (let version = sint (majorVersion m_settings * 10 + minorVersion m_settings);
          requestedVersion =
            sint (majorVersion requestedSettings * 10 + minorVersion requestedSettings)
      in if attributeFlags m_settings \<noteq> attributeFlags requestedSettings \<or>
            version < requestedVersion \<or>
            stencilBits m_settings < stencilBits requestedSettings \<or>
            antialiasingLevel m_settings < antialiasingLevel requestedSettings \<or>
            depthBits m_settings < depthBits requestedSettings \<or>
            (\<not> sRgbCapable m_settings \<and> sRgbCapable requestedSettings)
         then err_write (SettingsNotMet requestedSettings m_settings) t
         else t)"

text \<open>
  \<open>GlContext::create\<close> for a window (\<open>settings\<close>, \<open>owner\<close>, \<open>bitsPerPixel\<close>). The context
  type of the platform is not part of the sources at hand: \<open>made\<close> is the object that
  \<open>makeContextType\<close> constructs, with the settings its constructor stores. On failure the
  object is destroyed, which runs the destructor of \<open>GlContext\<close>.
\<close>

definition create ::
  "Attribute \<Rightarrow> (GlContext \<Rightarrow> bool \<Rightarrow> bool) \<Rightarrow> Driver \<Rightarrow> GraphicsContext
     \<Rightarrow> GlContext \<times> ContextSettings \<Rightarrow> ContextSettings \<Rightarrow> Thread
     \<Rightarrow> (GlContext \<times> ContextSettings) option \<times> Thread" where
  "create attr makeCurrent d gc made settings t =
     (let t1 = (case GraphicsContext_setActive makeCurrent gc True t of
                  (ok, t') \<Rightarrow>
                    if \<not> ok
                    then err_write (Line ''Error enabling shared context in GlContext::create()'') t'
                    else t');
          t2 = (case GraphicsContext_setActive makeCurrent gc False t1 of
                  (ok, t') \<Rightarrow>
                    if \<not> ok
                    then err_write (Line ''Error disabling shared context in GlContext::create()'') t'
                    else t')
      in case initialize attr makeCurrent d (fst made) (snd made) settings t2 of
           (ok, m_settings, t3) \<Rightarrow>
             if \<not> ok
             then (None,
                   GlContext_destructor (fst made)
                     (err_write (Line ''Could not initialize context in GlContext::create()'') t3))
             else (Some (fst made, m_settings), checkSettings m_settings settings t3))"

subsection \<open>The spec's notion of weaker settings\<close>

text \<open>
  The granted version \<open>g\<close> is lower than the requested version \<open>r\<close>, as
  \<open>major.minor\<close> numbers.
\<close>

definition version_lower :: "ContextSettings \<Rightarrow> ContextSettings \<Rightarrow> bool" where
  "version_lower g r =
     (majorVersion g < majorVersion r \<or>
      (majorVersion g = majorVersion r \<and> minorVersion g < minorVersion r))"

text \<open>A requested attribute flag that the granted settings do not have.\<close>

definition missing_flag :: "u32 \<Rightarrow> ContextSettings \<Rightarrow> ContextSettings \<Rightarrow> bool" where
  "missing_flag flag g r =
     (attributeFlags r AND flag \<noteq> 0 \<and> attributeFlags g AND flag = 0)"

text \<open>
  The granted settings \<open>g\<close> are weaker than the requested settings \<open>r\<close> in a
  dimension other than the version: depth bits, stencil bits, antialiasing level, core or
  debug flag, sRGB capability.
\<close>

definition weaker_besides_version ::
  "Attribute \<Rightarrow> ContextSettings \<Rightarrow> ContextSettings \<Rightarrow> bool" where
  "weaker_besides_version attr g r =
     (depthBits g < depthBits r \<or>
      stencilBits g < stencilBits r \<or>
      antialiasingLevel g < antialiasingLevel r \<or>
      missing_flag (Core attr) g r \<or>
      missing_flag (Debug attr) g r \<or>
      (sRgbCapable r \<and> \<not> sRgbCapable g))"

text \<open>The granted settings are weaker than the requested ones in some dimension.\<close>

definition weaker_than_requested ::
  "Attribute \<Rightarrow> ContextSettings \<Rightarrow> ContextSettings \<Rightarrow> bool" where
  "weaker_than_requested attr g r =
     (version_lower g r \<or> weaker_besides_version attr g r)"

text \<open>The test that ends \<open>initialize\<close> early: all five function pointers are loaded.\<close>

definition functions_loaded :: "Driver \<Rightarrow> bool" where
  "functions_loaded d =
     (getFunction d ''glGetIntegerv'' \<and> getFunction d ''glGetError'' \<and>
      getFunction d ''glGetString'' \<and> getFunction d ''glEnable'' \<and>
      getFunction d ''glIsEnabled'')"




subsection \<open>Drivers used as examples\<close>


text \<open>A driver that answers the integer version queries, without error.\<close>

definition desktop_driver :: "u32 \<Rightarrow> u32 \<Rightarrow> Driver" where
  "desktop_driver major minor =
     \<lparr>getFunction = (\<lambda>name. True),
      glGetIntegerv = (\<lambda>pname. if pname = GL_MAJOR_VERSION then Some major
                               else if pname = GL_MINOR_VERSION then Some minor
                               else Some 0),
      glGetError = 0,
      glGetString = (\<lambda>name. None),
      glGetStringi = (\<lambda>name index. []),
      glIsEnabled = (\<lambda>cap. 1)\<rparr>"

subsection \<open>Threads used as examples\<close>

text \<open>
  The thread-local variables of a thread that has not touched any context yet:
  \<open>CurrentContext\<close> is value-initialised and the optional \<open>TransientContext\<close> is empty.
\<close>

definition initial_thread :: Thread where
  "initial_thread =
     \<lparr>currentContext = \<lparr>id_cc = 0, ptr = None, transientCount = 0\<rparr>,
      transientContext = None, err = []\<rparr>"

text \<open>A thread on which the context \<open>c\<close> is current and nothing else has happened.\<close>

definition active_thread :: "GlContext \<Rightarrow> Thread" where
  "active_thread c =
     \<lparr>currentContext = \<lparr>id_cc = impl_id c, ptr = Some c, transientCount = 0\<rparr>,
      transientContext = None, err = []\<rparr>"

text \<open>The thread \<open>t\<close> with its nesting counter set to \<open>k\<close>.\<close>

definition with_count :: "u32 \<Rightarrow> Thread \<Rightarrow> Thread" where
  "with_count k t = t\<lparr>currentContext := (currentContext t)\<lparr>transientCount := k\<rparr>\<rparr>"

section \<open>Properties\<close>

subsection \<open>Identities\<close>

lemma constructed_ids_map:
  "constructed_ids n a = map (\<lambda>k. a + of_nat k) [0..<n]"
proof (induction n arbitrary: a)
  case 0
  show ?case by simp
next
  case (Suc n)
  have "[0..<Suc n] = 0 # map Suc [0..<n]"
    by (simp only: map_Suc_upt) (rule upt_conv_Cons, simp)
  then have "map (\<lambda>k. a + of_nat k) [0..<Suc n] = a # map (\<lambda>k. a + 1 + of_nat k) [0..<n]"
    by (simp add: add.assoc)
  moreover have "constructed_ids (Suc n) a = a # constructed_ids n (a + 1)"
    by (simp add: Impl_id_def fetch_add_def)
  ultimately show ?case
    using Suc.IH [of "a + 1"] by simp
qed

lemma unat_issued: "k < n \<Longrightarrow> n < 2 ^ 64 \<Longrightarrow> unat (atomicId_init + of_nat k :: u64) = Suc k"
proof -
  assume a: "k < n" "n < 2 ^ 64"
  have "atomicId_init + of_nat k = (of_nat (Suc k) :: u64)"
    by (simp add: atomicId_init_def)
  moreover have "unat (of_nat (Suc k) :: u64) = Suc k"
    using a by (simp only: unat_of_nat) (simp add: take_bit_nat_eq_self)
  ultimately show ?thesis by simp
qed

text \<open>
  Claim C1, as amended. The counter is a 64-bit word, so the claim holds for every sequence
  of fewer than \<open>2 ^ 64\<close> constructions: the identities issued, in the order of the
  atomic operations, are \<open>1, 2, ..., n\<close>; they are strictly increasing, none is zero and
  none occurs twice.
\<close>

theorem ids_strictly_increasing:
  assumes "n < 2 ^ 64"
  shows "sorted_wrt (<) (constructed_ids n atomicId_init) \<and>
         0 \<notin> set (constructed_ids n atomicId_init) \<and>
         distinct (constructed_ids n atomicId_init) \<and>
         (\<forall>k < n. constructed_ids n atomicId_init ! k = of_nat (Suc k))"
proof -
  let ?ids = "constructed_ids n atomicId_init"
  have len: "length ?ids = n"
    by (simp add: constructed_ids_map)
  have nth: "?ids ! k = atomicId_init + of_nat k" if "k < n" for k
    using that by (simp add: constructed_ids_map)
  have un: "unat (?ids ! k) = Suc k" if "k < n" for k
    using that assms nth unat_issued by simp
  have s: "sorted_wrt (<) ?ids"
    unfolding sorted_wrt_iff_nth_less
  proof (intro allI impI)
    fix i j assume "i < j" "j < length ?ids"
    then have "unat (?ids ! i) < unat (?ids ! j)"
      using un len by simp
    then show "?ids ! i < ?ids ! j"
      by (simp add: word_less_nat_alt)
  qed
  have z: "0 \<notin> set ?ids"
  proof
    assume "0 \<in> set ?ids"
    then obtain k where "k < n" "?ids ! k = 0"
      using len by (auto simp: in_set_conv_nth)
    then show False using un [of k] by simp
  qed
  have d: "distinct ?ids"
    unfolding distinct_conv_nth
  proof (intro allI impI)
    fix i j assume "i < length ?ids" "j < length ?ids" "i \<noteq> j"
    then have "unat (?ids ! i) \<noteq> unat (?ids ! j)"
      using un len by simp
    then show "?ids ! i \<noteq> ?ids ! j" by auto
  qed
  have e: "\<forall>k < n. ?ids ! k = of_nat (Suc k)"
    using nth by (simp add: atomicId_init_def)
  show ?thesis using s z d e by blast
qed

theorem ids_strictly_increasing_witness:
  "(3::nat) < 2 ^ 64 \<and> constructed_ids 3 atomicId_init = [1, 2, 3] \<and>
   sorted_wrt (<) (constructed_ids 3 atomicId_init) \<and>
   0 \<notin> set (constructed_ids 3 atomicId_init) \<and>
   distinct (constructed_ids 3 atomicId_init)"
proof -
  have h: "(3::nat) < 2 ^ 64" by simp
  have "constructed_ids 3 atomicId_init = [1, 2, 3]"
    by (simp add: eval_nat_numeral Impl_id_def fetch_add_def atomicId_init_def)
  then show ?thesis
    using h ids_strictly_increasing [OF h] by simp
qed

text \<open>
  Claim C1 as stated ("for any sequence", "never reused") fails once the counter wraps:
  the \<open>2 ^ 64\<close>-th context constructed in a process receives the identity 0, the value
  reserved for "no context".
\<close>

theorem ids_wrap_counterexample:
  "last (constructed_ids (2 ^ 64) atomicId_init) = 0"
proof -
  have "(2::nat) ^ 64 = Suc (2 ^ 64 - 1)" by simp
  have "last (constructed_ids (Suc (2 ^ 64 - 1)) atomicId_init) = atomicId_init + of_nat (2 ^ 64 - 1)"
    by (simp only: constructed_ids_map upt_Suc) simp
  moreover have "atomicId_init + of_nat (2 ^ 64 - 1) = (of_nat (Suc (2 ^ 64 - 1)) :: u64)"
    by (simp only: atomicId_init_def of_nat_Suc)
  moreover have "(of_nat (Suc (2 ^ 64 - 1)) :: u64) = 0"
    by simp
  ultimately show ?thesis by simp
qed
subsection \<open>Activation\<close>

text \<open>
  Claim C2. When \<open>setActive(C, true)\<close> returns true on a thread, the thread's record holds
  the identity of \<open>C\<close>; when \<open>setActive(C, false)\<close> returns true on a thread whose
  active context is \<open>C\<close>, the record holds 0.
\<close>

theorem setActive_records_identity:
  "(setActive makeCurrent c True t = (True, t') \<longrightarrow> getActiveContextId t' = impl_id c) \<and>
   (getActiveContextId t = impl_id c \<and> setActive makeCurrent c False t = (True, t')
      \<longrightarrow> getActiveContextId t' = 0)"
  by (auto simp: setActive_def getActiveContextId_def Let_def split: if_splits)

theorem setActive_records_identity_witness:
  "setActive (\<lambda>c current. True) \<lparr>impl_id = 1, addr = 100\<rparr> True initial_thread =
     (True, active_thread \<lparr>impl_id = 1, addr = 100\<rparr>) \<and>
   getActiveContextId (active_thread \<lparr>impl_id = 1, addr = 100\<rparr>) = 1 \<and>
   setActive (\<lambda>c current. True) \<lparr>impl_id = 1, addr = 100\<rparr> False
       (active_thread \<lparr>impl_id = 1, addr = 100\<rparr>) = (True, initial_thread) \<and>
   getActiveContextId initial_thread = 0"
proof -
  let ?mk = "\<lambda>(c :: GlContext) (current :: bool). True"
  let ?c = "\<lparr>impl_id = 1, addr = 100\<rparr> :: GlContext"
  have up: "setActive ?mk ?c True initial_thread = (True, active_thread ?c)"
    by (simp add: setActive_def initial_thread_def active_thread_def)
  have down: "setActive ?mk ?c False (active_thread ?c) = (True, initial_thread)"
    by (simp add: setActive_def initial_thread_def active_thread_def)
  have cur: "getActiveContextId (active_thread ?c) = impl_id ?c"
    by (simp add: getActiveContextId_def active_thread_def)
  have "getActiveContextId (active_thread ?c) = impl_id ?c"
    using setActive_records_identity [of ?mk ?c initial_thread "active_thread ?c"] up by blast
  moreover have "getActiveContextId initial_thread = 0"
    using setActive_records_identity [of ?mk ?c "active_thread ?c" initial_thread] cur down
    by blast
  ultimately show ?thesis
    using up down by simp
qed



text \<open>
  Claim C9. When \<open>setActive\<close> reaches the platform and \<open>makeCurrent\<close> fails, in either
  direction, \<open>setActive\<close> returns false and the thread's record of the current context
  (identity, pointer and nesting counter) is what it was before the call.
\<close>

theorem setActive_failure_atomic:
  assumes "\<not> makeCurrent c active"
      and "active \<longrightarrow> getActiveContextId t \<noteq> impl_id c"
      and "\<not> active \<longrightarrow> getActiveContextId t = impl_id c"
  shows "fst (setActive makeCurrent c active t) = False \<and>
         currentContext (snd (setActive makeCurrent c active t)) = currentContext t \<and>
         transientContext (snd (setActive makeCurrent c active t)) = transientContext t"
  using assms
  by (cases active) (auto simp: setActive_def getActiveContextId_def Let_def err_write_def)

theorem setActive_failure_atomic_witness:
  "fst (setActive (\<lambda>c current. False) \<lparr>impl_id = 2, addr = 200\<rparr> True
          (active_thread \<lparr>impl_id = 1, addr = 100\<rparr>)) = False \<and>
   currentContext (snd (setActive (\<lambda>c current. False) \<lparr>impl_id = 2, addr = 200\<rparr> True
          (active_thread \<lparr>impl_id = 1, addr = 100\<rparr>))) =
     \<lparr>id_cc = 1, ptr = Some \<lparr>impl_id = 1, addr = 100\<rparr>, transientCount = 0\<rparr> \<and>
   fst (setActive (\<lambda>c current. False) \<lparr>impl_id = 1, addr = 100\<rparr> False
          (active_thread \<lparr>impl_id = 1, addr = 100\<rparr>)) = False \<and>
   currentContext (snd (setActive (\<lambda>c current. False) \<lparr>impl_id = 1, addr = 100\<rparr> False
          (active_thread \<lparr>impl_id = 1, addr = 100\<rparr>))) =
     \<lparr>id_cc = 1, ptr = Some \<lparr>impl_id = 1, addr = 100\<rparr>, transientCount = 0\<rparr>"
proof -
  let ?mk = "\<lambda>(c :: GlContext) (current :: bool). False"
  let ?c = "\<lparr>impl_id = 1, addr = 100\<rparr> :: GlContext"
  let ?d = "\<lparr>impl_id = 2, addr = 200\<rparr> :: GlContext"
  have other: "getActiveContextId (active_thread ?c) \<noteq> impl_id ?d"
    by (simp add: getActiveContextId_def active_thread_def)
  have same: "getActiveContextId (active_thread ?c) = impl_id ?c"
    by (simp add: getActiveContextId_def active_thread_def)
  have cc: "currentContext (active_thread ?c) =
              \<lparr>id_cc = 1, ptr = Some ?c, transientCount = 0\<rparr>"
    by (simp add: active_thread_def)
  have "\<not> ?mk ?d True" and "\<not> ?mk ?c False"
    by simp_all
  then show ?thesis
    using setActive_failure_atomic [of ?mk ?d True "active_thread ?c"] other
          setActive_failure_atomic [of ?mk ?c False "active_thread ?c"] same cc
    by simp
qed

subsection \<open>Transient contexts\<close>

lemma with_count_simps:
  "id_cc (currentContext (with_count k t)) = id_cc (currentContext t)"
  "transientCount (currentContext (with_count k t)) = k"
  "with_count k (with_count j t) = with_count k t"
  "with_count (transientCount (currentContext t)) t = t"
  by (simp_all add: with_count_def)

lemma acquire_fast:
  "id_cc (currentContext t) \<noteq> 0 \<Longrightarrow>
   acquireTransientContext makeCurrent gc t =
     Inr (with_count (transientCount (currentContext t) + 1) t)"
  by (simp add: acquireTransientContext_def Let_def with_count_def)

lemma release_fast:
  "id_cc (currentContext t) \<noteq> 0 \<Longrightarrow> transientCount (currentContext t) \<noteq> 0 \<Longrightarrow>
   releaseTransientContext makeCurrent t =
     Inr (with_count (transientCount (currentContext t) - 1) t)"
  by (simp add: releaseTransientContext_def Let_def with_count_def word_greater_zero_iff)

lemma repeat_acquire:
  "id_cc (currentContext t) \<noteq> 0 \<Longrightarrow>
   repeat_calls n (acquireTransientContext makeCurrent gc) t =
     Inr (with_count (transientCount (currentContext t) + of_nat n) t)"
proof (induction n arbitrary: t)
  case 0
  show ?case by (simp add: with_count_simps)
next
  case (Suc n)
  have "repeat_calls (Suc n) (acquireTransientContext makeCurrent gc) t =
        repeat_calls n (acquireTransientContext makeCurrent gc)
          (with_count (transientCount (currentContext t) + 1) t)"
    using Suc.prems by (simp add: acquire_fast)
  also have "\<dots> = Inr (with_count (transientCount (currentContext t) + 1 + of_nat n) t)"
    using Suc.prems by (subst Suc.IH) (simp_all add: with_count_simps)
  also have "transientCount (currentContext t) + 1 + of_nat n =
             transientCount (currentContext t) + of_nat (Suc n)"
    by simp
  finally show ?case .
qed

lemma repeat_release:
  "id_cc (currentContext t) \<noteq> 0 \<Longrightarrow> n \<le> unat (transientCount (currentContext t)) \<Longrightarrow>
   repeat_calls n (releaseTransientContext makeCurrent) t =
     Inr (with_count (transientCount (currentContext t) - of_nat n) t)"
proof (induction n arbitrary: t)
  case 0
  show ?case by (simp add: with_count_simps)
next
  case (Suc n)
  let ?c = "transientCount (currentContext t)"
  have nz: "?c \<noteq> 0"
    using Suc.prems(2) by (auto simp: unat_eq_0)
  then have u: "unat (?c - 1) = unat ?c - 1"
    by (simp add: unat_minus_one)
  have "repeat_calls (Suc n) (releaseTransientContext makeCurrent) t =
        repeat_calls n (releaseTransientContext makeCurrent) (with_count (?c - 1) t)"
    using Suc.prems nz by (simp add: release_fast)
  also have "\<dots> = Inr (with_count (?c - 1 - of_nat n) t)"
    using Suc.prems u by (subst Suc.IH) (simp_all add: with_count_simps)
  also have "?c - 1 - of_nat n = ?c - of_nat (Suc n)"
    by simp
  finally show ?case .
qed

lemma repeat_calls_add:
  "repeat_calls (m + k) f t =
     (case repeat_calls m f t of Inl e \<Rightarrow> Inl e | Inr t' \<Rightarrow> repeat_calls k f t')"
  by (induction m arbitrary: t) (auto split: sum.splits)

lemma balanced_fast:
  assumes "id_cc (currentContext t) \<noteq> 0" "n < 2 ^ 32" "transientCount (currentContext t) = 0"
  shows "acquire_then_release makeCurrent gc n t = Inr t"
proof -
  have u: "unat (of_nat n :: u32) = n"
    using assms(2) by (simp add: unat_of_nat take_bit_nat_eq_self)
  have "repeat_calls n (releaseTransientContext makeCurrent) (with_count (of_nat n) t) =
          Inr (with_count 0 t)"
    using assms(1) u by (subst repeat_release) (simp_all add: with_count_simps)
  moreover have "with_count 0 t = t"
    using assms(3) with_count_simps(4) [of t] by simp
  ultimately show ?thesis
    using assms by (simp add: acquire_then_release_def repeat_acquire)
qed

lemma acquire_slow:
  assumes "id_cc (currentContext t) = 0" "transientCount (currentContext t) = 0"
      and "transientContext t = None"
      and "impl_id (sharedContext gc) \<noteq> 0" "makeCurrent (sharedContext gc) True"
  shows "acquireTransientContext makeCurrent gc t =
           Inr (t\<lparr>currentContext := (currentContext t)
                      \<lparr>id_cc := impl_id (sharedContext gc), ptr := Some (sharedContext gc)\<rparr>,
                   transientContext := Some \<lparr>graphicsContext = gc\<rparr>\<rparr>)"
  using assms
  by (simp add: acquireTransientContext_def TransientContext_emplace_def hasActiveContext_def
        getActiveContextId_def GraphicsContext_setActive_def setActive_def Let_def)

lemma release_slow:
  assumes "id_cc (currentContext t) = impl_id (sharedContext gc)"
      and "transientCount (currentContext t) = 0"
      and "transientContext t = Some \<lparr>graphicsContext = gc\<rparr>"
      and "impl_id (sharedContext gc) \<noteq> 0" "makeCurrent (sharedContext gc) False"
  shows "releaseTransientContext makeCurrent t =
           Inr (t\<lparr>currentContext := (currentContext t)\<lparr>id_cc := 0, ptr := None\<rparr>,
                   transientContext := None\<rparr>)"
  using assms
  by (simp add: releaseTransientContext_def TransientContext_reset_def
        GraphicsContext_setActive_def setActive_def Let_def)

lemma balanced_slow:
  assumes "id_cc (currentContext t) = 0" "transientCount (currentContext t) = 0"
      and "transientContext t = None"
      and "impl_id (sharedContext gc) \<noteq> 0"
      and "makeCurrent (sharedContext gc) True" "makeCurrent (sharedContext gc) False"
      and "n \<le> 2 ^ 32"
  shows "acquire_then_release makeCurrent gc n t =
           Inr (if 0 < n then t\<lparr>currentContext := (currentContext t)\<lparr>ptr := None\<rparr>\<rparr> else t)"
proof (cases n)
  case 0
  then show ?thesis by (simp add: acquire_then_release_def)
next
  case (Suc m)
  define t1 where "t1 = t\<lparr>currentContext := (currentContext t)
                      \<lparr>id_cc := impl_id (sharedContext gc), ptr := Some (sharedContext gc)\<rparr>,
                   transientContext := Some \<lparr>graphicsContext = gc\<rparr>\<rparr>"
  define t' where "t' = t\<lparr>currentContext := (currentContext t)\<lparr>ptr := None\<rparr>\<rparr>"
  have t1: "id_cc (currentContext t1) = impl_id (sharedContext gc)"
           "transientCount (currentContext t1) = 0"
           "transientContext t1 = Some \<lparr>graphicsContext = gc\<rparr>"
    using assms(2) by (simp_all add: t1_def)
  have nz: "id_cc (currentContext t1) \<noteq> 0"
    using t1(1) assms(4) by simp
  have m: "unat (of_nat m :: u32) = m"
    using assms(7) Suc by (simp add: unat_of_nat take_bit_nat_eq_self)
  have "(currentContext t)\<lparr>id_cc := 0, ptr := None\<rparr> = (currentContext t)\<lparr>ptr := None\<rparr>"
    using assms(1) by (cases "currentContext t") simp
  moreover have "t\<lparr>transientContext := None\<rparr> = t"
    using assms(3) by (cases t) simp
  ultimately have undo: "t1\<lparr>currentContext := (currentContext t1)\<lparr>id_cc := 0, ptr := None\<rparr>,
                 transientContext := None\<rparr> = t'"
    by (cases t) (simp add: t1_def t'_def)
  have a1: "acquireTransientContext makeCurrent gc t = Inr t1"
    unfolding t1_def using assms by (intro acquire_slow) simp_all
  have acq: "repeat_calls (Suc m) (acquireTransientContext makeCurrent gc) t =
               Inr (with_count (of_nat m) t1)"
    using a1 repeat_acquire [OF nz, of m makeCurrent gc] t1(2) by simp
  have "repeat_calls m (releaseTransientContext makeCurrent) (with_count (of_nat m) t1) =
          Inr (with_count 0 t1)"
    using nz m by (subst repeat_release) (simp_all add: with_count_simps)
  moreover have "with_count 0 t1 = t1"
    using t1(2) with_count_simps(4) [of t1] by simp
  ultimately have rel_m: "repeat_calls m (releaseTransientContext makeCurrent)
                            (with_count (of_nat m) t1) = Inr t1"
    by simp
  have rel_1: "releaseTransientContext makeCurrent t1 = Inr t'"
    using release_slow [of t1 gc makeCurrent] t1 assms(4) assms(6) undo by simp
  have "repeat_calls (m + 1) (releaseTransientContext makeCurrent) (with_count (of_nat m) t1) =
          Inr t'"
    unfolding repeat_calls_add using rel_m rel_1 by simp
  then show ?thesis
    using acq Suc by (simp add: acquire_then_release_def t'_def)
qed

text \<open>
  Claim C3, as amended. Let the nesting counter of a thread be 0. If a context is active on
  the thread and \<open>n < 2 ^ 32\<close>, then \<open>n\<close> calls of \<open>acquireTransientContext\<close> followed by
  \<open>n\<close> calls of \<open>releaseTransientContext\<close> fail no assertion and leave the state of the
  thread exactly as it was. If no context is active (the identity is 0), the thread has no
  \<open>TransientContext\<close> object, the identity of the shared context is not 0, the platform
  makes the shared context current and not current when asked, and \<open>n \<le> 2 ^ 32\<close>, then
  the calls fail no assertion and leave the identity 0, the nesting counter 0, the thread
  without a \<open>TransientContext\<close> object and the diagnostics as they were; the pointer to the
  current context is null afterwards, so a thread whose pointer was null is exactly as it
  was. An acquisition on a thread with an active context increments the nesting counter
  and changes nothing else.
\<close>

theorem transient_balanced:
  assumes "transientCount (currentContext t) = 0"
      and "id_cc (currentContext t) \<noteq> 0 \<longrightarrow> n < 2 ^ 32"
      and "id_cc (currentContext t) = 0 \<longrightarrow>
             n \<le> 2 ^ 32 \<and> transientContext t = None \<and>
             impl_id (sharedContext gc) \<noteq> 0 \<and>
             makeCurrent (sharedContext gc) True \<and> makeCurrent (sharedContext gc) False"
  shows "acquire_then_release makeCurrent gc n t =
           Inr (if id_cc (currentContext t) = 0 \<and> 0 < n
                then t\<lparr>currentContext := (currentContext t)\<lparr>ptr := None\<rparr>\<rparr>
                else t) \<and>
         (id_cc (currentContext t) \<noteq> 0 \<or> ptr (currentContext t) = None \<longrightarrow>
            acquire_then_release makeCurrent gc n t = Inr t) \<and>
         (id_cc (currentContext s) \<noteq> 0 \<longrightarrow>
            acquireTransientContext makeCurrent gc s =
              Inr (s\<lparr>currentContext := (currentContext s)
                        \<lparr>transientCount := transientCount (currentContext s) + 1\<rparr>\<rparr>))"
proof -
  have a: "acquire_then_release makeCurrent gc n t =
           Inr (if id_cc (currentContext t) = 0 \<and> 0 < n
                then t\<lparr>currentContext := (currentContext t)\<lparr>ptr := None\<rparr>\<rparr>
                else t)"
  proof (cases "id_cc (currentContext t) = 0")
    case True
    with assms have "acquire_then_release makeCurrent gc n t =
           Inr (if 0 < n then t\<lparr>currentContext := (currentContext t)\<lparr>ptr := None\<rparr>\<rparr> else t)"
      by (intro balanced_slow) simp_all
    with True show ?thesis by simp
  next
    case False
    with assms have "acquire_then_release makeCurrent gc n t = Inr t"
      by (intro balanced_fast) simp_all
    with False show ?thesis by simp
  qed
  have "ptr (currentContext t) = None \<longrightarrow>
          t\<lparr>currentContext := (currentContext t)\<lparr>ptr := None\<rparr>\<rparr> = t"
    by (cases t, cases "currentContext t") simp
  with a have b: "id_cc (currentContext t) \<noteq> 0 \<or> ptr (currentContext t) = None \<longrightarrow>
            acquire_then_release makeCurrent gc n t = Inr t"
    by auto
  have c: "id_cc (currentContext s) \<noteq> 0 \<longrightarrow>
            acquireTransientContext makeCurrent gc s =
              Inr (s\<lparr>currentContext := (currentContext s)
                        \<lparr>transientCount := transientCount (currentContext s) + 1\<rparr>\<rparr>)"
    by (simp add: acquire_fast with_count_def)
  show ?thesis using a b c by blast
qed

theorem transient_balanced_witness:
  "acquire_then_release (\<lambda>c current. True) \<lparr>sharedContext = \<lparr>impl_id = 1, addr = 100\<rparr>\<rparr> 2
     initial_thread = Inr initial_thread \<and>
   acquire_then_release (\<lambda>c current. True) \<lparr>sharedContext = \<lparr>impl_id = 1, addr = 100\<rparr>\<rparr> 3
     (active_thread \<lparr>impl_id = 2, addr = 200\<rparr>) = Inr (active_thread \<lparr>impl_id = 2, addr = 200\<rparr>) \<and>
   acquireTransientContext (\<lambda>c current. True) \<lparr>sharedContext = \<lparr>impl_id = 1, addr = 100\<rparr>\<rparr>
     (active_thread \<lparr>impl_id = 2, addr = 200\<rparr>) =
     Inr \<lparr>currentContext =
            \<lparr>id_cc = 2, ptr = Some \<lparr>impl_id = 2, addr = 200\<rparr>, transientCount = 1\<rparr>,
          transientContext = None, err = []\<rparr>"
proof -
  let ?mk = "\<lambda>(c :: GlContext) (current :: bool). True"
  let ?gc = "\<lparr>sharedContext = \<lparr>impl_id = 1, addr = 100\<rparr>\<rparr>"
  let ?c = "\<lparr>impl_id = 2, addr = 200\<rparr> :: GlContext"
  have i0: "transientCount (currentContext initial_thread) = 0"
    by (simp add: initial_thread_def)
  have i1: "id_cc (currentContext initial_thread) \<noteq> 0 \<longrightarrow> (2::nat) < 2 ^ 32"
    by simp
  have i2: "id_cc (currentContext initial_thread) = 0 \<longrightarrow>
             (2::nat) \<le> 2 ^ 32 \<and> transientContext initial_thread = None \<and>
             impl_id (sharedContext ?gc) \<noteq> 0 \<and>
             ?mk (sharedContext ?gc) True \<and> ?mk (sharedContext ?gc) False"
    by (simp add: initial_thread_def)
  have i3: "ptr (currentContext initial_thread) = None"
    by (simp add: initial_thread_def)
  have a0: "transientCount (currentContext (active_thread ?c)) = 0"
    by (simp add: active_thread_def)
  have a1: "id_cc (currentContext (active_thread ?c)) \<noteq> 0 \<longrightarrow> (3::nat) < 2 ^ 32"
    by simp
  have a2: "id_cc (currentContext (active_thread ?c)) = 0 \<longrightarrow>
             (3::nat) \<le> 2 ^ 32 \<and> transientContext (active_thread ?c) = None \<and>
             impl_id (sharedContext ?gc) \<noteq> 0 \<and>
             ?mk (sharedContext ?gc) True \<and> ?mk (sharedContext ?gc) False"
    by (simp add: active_thread_def)
  have a3: "id_cc (currentContext (active_thread ?c)) \<noteq> 0"
    by (simp add: active_thread_def)
  have "acquire_then_release ?mk ?gc 2 initial_thread = Inr initial_thread"
    using transient_balanced [OF i0 i1 i2] i3 by blast
  moreover have "acquire_then_release ?mk ?gc 3 (active_thread ?c) = Inr (active_thread ?c) \<and>
      acquireTransientContext ?mk ?gc (active_thread ?c) =
        Inr ((active_thread ?c)\<lparr>currentContext := (currentContext (active_thread ?c))
               \<lparr>transientCount := transientCount (currentContext (active_thread ?c)) + 1\<rparr>\<rparr>)"
    using transient_balanced [OF a0 a1 a2, of "active_thread ?c"] a3 by blast
  ultimately show ?thesis
    by (simp add: active_thread_def)
qed

text \<open>
  Claim C3 as stated fails in four ways.
  \<^item> When the platform refuses to release the shared context, one acquisition followed by
    one release leaves the shared context current on a thread that had none.
  \<^item> The nesting counter is an \<open>unsigned int\<close>: after \<open>2 ^ 32\<close> acquisitions on a thread
    with an active context it is 0 again, and the first release fails the assertion that
    a transient context exists.
  \<^item> A thread can have no active context and still own a \<open>TransientContext\<close> object:
    after an acquisition on a fresh thread, \<open>setActive(false)\<close> on the shared context
    leaves identity 0, nesting counter 0 and the object in place. The next acquisition
    fails the assertion that no such object exists.
  \<^item> With a shared context of identity 0, its activation on a thread without a context is
    the early return of \<open>setActive\<close>, and the acquisition fails the assertion that a
    context is active afterwards.
\<close>

theorem transient_unbalanced_counterexample:
  "acquire_then_release (\<lambda>c current. current) \<lparr>sharedContext = \<lparr>impl_id = 1, addr = 100\<rparr>\<rparr> 1
     initial_thread =
     Inr \<lparr>currentContext =
            \<lparr>id_cc = 1, ptr = Some \<lparr>impl_id = 1, addr = 100\<rparr>, transientCount = 0\<rparr>,
          transientContext = None,
          err = [Line ''makeCurrent(false) failure in GlContext::setActive'',
                 Line ''Error disabling shared context in ~TransientContext()'']\<rparr> \<and>
   acquire_then_release (\<lambda>c current. True) \<lparr>sharedContext = \<lparr>impl_id = 1, addr = 100\<rparr>\<rparr>
     (2 ^ 32) (active_thread \<lparr>impl_id = 2, addr = 200\<rparr>) =
     Inl (AssertionFailed ''TransientContext::get().has_value()'') \<and>
   acquireTransientContext (\<lambda>c current. True) \<lparr>sharedContext = \<lparr>impl_id = 1, addr = 100\<rparr>\<rparr>
     initial_thread =
     Inr \<lparr>currentContext =
            \<lparr>id_cc = 1, ptr = Some \<lparr>impl_id = 1, addr = 100\<rparr>, transientCount = 0\<rparr>,
          transientContext = Some \<lparr>graphicsContext = \<lparr>sharedContext = \<lparr>impl_id = 1, addr = 100\<rparr>\<rparr>\<rparr>,
          err = []\<rparr> \<and>
   setActive (\<lambda>c current. True) \<lparr>impl_id = 1, addr = 100\<rparr> False
     \<lparr>currentContext =
        \<lparr>id_cc = 1, ptr = Some \<lparr>impl_id = 1, addr = 100\<rparr>, transientCount = 0\<rparr>,
      transientContext = Some \<lparr>graphicsContext = \<lparr>sharedContext = \<lparr>impl_id = 1, addr = 100\<rparr>\<rparr>\<rparr>,
      err = []\<rparr> =
     (True,
      \<lparr>currentContext = \<lparr>id_cc = 0, ptr = None, transientCount = 0\<rparr>,
       transientContext = Some \<lparr>graphicsContext = \<lparr>sharedContext = \<lparr>impl_id = 1, addr = 100\<rparr>\<rparr>\<rparr>,
       err = []\<rparr>) \<and>
   acquire_then_release (\<lambda>c current. True) \<lparr>sharedContext = \<lparr>impl_id = 1, addr = 100\<rparr>\<rparr> 1
     \<lparr>currentContext = \<lparr>id_cc = 0, ptr = None, transientCount = 0\<rparr>,
      transientContext = Some \<lparr>graphicsContext = \<lparr>sharedContext = \<lparr>impl_id = 1, addr = 100\<rparr>\<rparr>\<rparr>,
      err = []\<rparr> =
     Inl (AssertionFailed ''!TransientContext::get().has_value()'') \<and>
   acquire_then_release (\<lambda>c current. True) \<lparr>sharedContext = \<lparr>impl_id = 0, addr = 100\<rparr>\<rparr> 1
     initial_thread =
     Inl (AssertionFailed ''Current context ID cannot be zero'')"
proof -
  let ?mk = "\<lambda>(c :: GlContext) (current :: bool). True"
  let ?gc = "\<lparr>sharedContext = \<lparr>impl_id = 1, addr = 100\<rparr>\<rparr>"
  let ?t = "active_thread \<lparr>impl_id = 2, addr = 200\<rparr>"
  have one: "acquire_then_release (\<lambda>c current. current) ?gc 1 initial_thread =
     Inr \<lparr>currentContext =
            \<lparr>id_cc = 1, ptr = Some \<lparr>impl_id = 1, addr = 100\<rparr>, transientCount = 0\<rparr>,
          transientContext = None,
          err = [Line ''makeCurrent(false) failure in GlContext::setActive'',
                 Line ''Error disabling shared context in ~TransientContext()'']\<rparr>"
    by (simp add: acquire_then_release_def acquireTransientContext_def
          releaseTransientContext_def TransientContext_emplace_def TransientContext_reset_def
          GraphicsContext_setActive_def setActive_def hasActiveContext_def
          getActiveContextId_def initial_thread_def err_write_def Let_def)
  have nz: "id_cc (currentContext ?t) \<noteq> 0"
    by (simp add: active_thread_def)
  have "(of_nat (2 ^ 32) :: u32) = 0"
    by simp
  then have "with_count (transientCount (currentContext ?t) + of_nat (2 ^ 32)) ?t = ?t"
    by (simp add: with_count_def active_thread_def)
  then have acq: "repeat_calls (2 ^ 32) (acquireTransientContext ?mk ?gc) ?t = Inr ?t"
    using repeat_acquire [OF nz, of "2 ^ 32" ?mk ?gc] by simp
  have rel: "releaseTransientContext ?mk ?t =
               Inl (AssertionFailed ''TransientContext::get().has_value()'')"
    by (simp add: releaseTransientContext_def active_thread_def Let_def)
  have "(2::nat) ^ 32 = Suc (2 ^ 32 - 1)"
    by simp
  then have "repeat_calls (2 ^ 32) (releaseTransientContext ?mk) ?t =
               repeat_calls (Suc (2 ^ 32 - 1)) (releaseTransientContext ?mk) ?t"
    by simp
  also have "\<dots> = Inl (AssertionFailed ''TransientContext::get().has_value()'')"
    using rel by (simp only: repeat_calls.simps sum.case)
  finally have two: "acquire_then_release ?mk ?gc (2 ^ 32) ?t =
                  Inl (AssertionFailed ''TransientContext::get().has_value()'')"
    using acq by (simp add: acquire_then_release_def)
  have three: "acquireTransientContext ?mk ?gc initial_thread =
     Inr \<lparr>currentContext =
            \<lparr>id_cc = 1, ptr = Some \<lparr>impl_id = 1, addr = 100\<rparr>, transientCount = 0\<rparr>,
          transientContext = Some \<lparr>graphicsContext = ?gc\<rparr>, err = []\<rparr>"
    by (simp add: acquireTransientContext_def TransientContext_emplace_def
          GraphicsContext_setActive_def setActive_def hasActiveContext_def
          getActiveContextId_def initial_thread_def Let_def)
  have four: "setActive ?mk \<lparr>impl_id = 1, addr = 100\<rparr> False
     \<lparr>currentContext =
        \<lparr>id_cc = 1, ptr = Some \<lparr>impl_id = 1, addr = 100\<rparr>, transientCount = 0\<rparr>,
      transientContext = Some \<lparr>graphicsContext = ?gc\<rparr>, err = []\<rparr> =
     (True,
      \<lparr>currentContext = \<lparr>id_cc = 0, ptr = None, transientCount = 0\<rparr>,
       transientContext = Some \<lparr>graphicsContext = ?gc\<rparr>, err = []\<rparr>)"
    by (simp add: setActive_def)
  have five: "acquire_then_release ?mk ?gc 1
     \<lparr>currentContext = \<lparr>id_cc = 0, ptr = None, transientCount = 0\<rparr>,
      transientContext = Some \<lparr>graphicsContext = ?gc\<rparr>, err = []\<rparr> =
     Inl (AssertionFailed ''!TransientContext::get().has_value()'')"
    by (simp add: acquire_then_release_def acquireTransientContext_def Let_def)
  have six: "acquire_then_release ?mk \<lparr>sharedContext = \<lparr>impl_id = 0, addr = 100\<rparr>\<rparr> 1
     initial_thread = Inl (AssertionFailed ''Current context ID cannot be zero'')"
    by (simp add: acquire_then_release_def acquireTransientContext_def
          TransientContext_emplace_def GraphicsContext_setActive_def setActive_def
          hasActiveContext_def getActiveContextId_def initial_thread_def Let_def)
  show ?thesis
    using one two three four five six by simp
qed

subsection \<open>Unshared OpenGL objects\<close>

lemma cleanup_loop_filter:
  "iter \<le> length objs \<Longrightarrow>
   cleanup_loop i iter objs = take iter objs @ filter (\<lambda>obj. contextId obj \<noteq> i) (drop iter objs)"
proof (induction i iter objs rule: cleanup_loop.induct)
  case (1 i iter objs)
  show ?case
  proof (cases "iter < length objs")
    case False
    with "1.prems" show ?thesis
      by (subst cleanup_loop.simps) simp
  next
    case True
    then have d: "drop iter objs = objs ! iter # drop (Suc iter) objs"
      by (simp add: Cons_nth_drop_Suc)
    show ?thesis
    proof (cases "contextId (objs ! iter) = i")
      case eq: True
      have l: "iter \<le> length (erase objs iter)"
        using True by (simp add: erase_def)
      have "cleanup_loop i iter objs = cleanup_loop i iter (erase objs iter)"
        using True eq by (subst cleanup_loop.simps) simp
      also have "\<dots> = take iter (erase objs iter) @
                        filter (\<lambda>obj. contextId obj \<noteq> i) (drop iter (erase objs iter))"
        using "1.IH"(1) [OF True eq l] .
      also have "take iter (erase objs iter) = take iter objs"
        using True by (simp add: erase_def)
      also have "drop iter (erase objs iter) = drop (Suc iter) objs"
        using True by (simp add: erase_def)
      finally show ?thesis
        using eq d by simp
    next
      case ne: False
      have "cleanup_loop i iter objs = cleanup_loop i (Suc iter) objs"
        using True ne by (subst cleanup_loop.simps) simp
      also have "\<dots> = take (Suc iter) objs @
                        filter (\<lambda>obj. contextId obj \<noteq> i) (drop (Suc iter) objs)"
        using "1.IH"(2) [OF True ne] True by simp
      finally show ?thesis
        using ne d True by (simp add: take_Suc_conv_app_nth)
    qed
  qed
qed

lemma snd_cleanup:
  "snd (cleanupUnsharedResources makeCurrent self t objs) =
     filter (\<lambda>obj. contextId obj \<noteq> impl_id self) objs"
  by (simp add: cleanupUnsharedResources_def Let_def cleanup_loop_filter)

lemma findIf_le: "findIf p xs \<le> length xs"
  by (induction xs) auto

lemma findIf_end: "(findIf p xs = length xs) = (\<forall>x \<in> set xs. \<not> p x)"
  using findIf_le [of p] by (induction xs) (auto simp: not_less_eq_eq)

lemma erase_findIf_eq:
  "findIf (\<lambda>x. x = e) xs \<noteq> length xs \<Longrightarrow> erase xs (findIf (\<lambda>x. x = e) xs) = remove1 e xs"
  by (induction xs) (auto simp: erase_def)

lemma entry_eq:
  "(\<lambda>obj :: UnsharedGlObject. contextId obj = a \<and> object obj = h) =
   (\<lambda>obj. obj = \<lparr>contextId = a, object = h\<rparr>)"
  by (rule ext) auto

lemma unregister_remove1:
  "unregisterUnsharedGlObject t h (Some objs) =
     Some (remove1 \<lparr>contextId = getActiveContextId t, object = h\<rparr> objs)"
proof -
  let ?e = "\<lparr>contextId = getActiveContextId t, object = h\<rparr>"
  show ?thesis
  proof (cases "findIf (\<lambda>x. x = ?e) objs = length objs")
    case True
    then have "?e \<notin> set objs" by (auto simp: findIf_end)
    then have "remove1 ?e objs = objs" by (simp add: remove1_idem)
    with True show ?thesis
      by (simp add: unregisterUnsharedGlObject_def entry_eq)
  next
    case False
    then show ?thesis
      by (simp add: unregisterUnsharedGlObject_def entry_eq erase_findIf_eq)
  qed
qed

text \<open>
  Claim C4. The cleanup of a context removes from the list exactly the entries whose
  \<open>contextId\<close> is the identity of that context and keeps every other entry, in order. A
  second cleanup changes nothing, and the cleanup gives the same list whether or not an
  object of the context was unregistered first.
\<close>

theorem cleanup_removes_exactly:
  "snd (cleanupUnsharedResources makeCurrent self t objs) =
     filter (\<lambda>obj. contextId obj \<noteq> impl_id self) objs \<and>
   (\<forall>obj \<in> set (snd (cleanupUnsharedResources makeCurrent self t objs)).
      contextId obj \<noteq> impl_id self) \<and>
   (\<forall>obj \<in> set objs. contextId obj \<noteq> impl_id self \<longrightarrow>
      obj \<in> set (snd (cleanupUnsharedResources makeCurrent self t objs))) \<and>
   snd (cleanupUnsharedResources makeCurrent self t'
          (snd (cleanupUnsharedResources makeCurrent self t objs))) =
     snd (cleanupUnsharedResources makeCurrent self t objs) \<and>
   (getActiveContextId ta = impl_id self \<and>
    unregisterUnsharedGlObject ta h (Some objs) = Some objs'
      \<longrightarrow> snd (cleanupUnsharedResources makeCurrent self t objs') =
          snd (cleanupUnsharedResources makeCurrent self t objs))"
proof -
  let ?keep = "\<lambda>obj :: UnsharedGlObject. contextId obj \<noteq> impl_id self"
  have a: "snd (cleanupUnsharedResources makeCurrent self s xs) = filter ?keep xs" for s xs
    by (rule snd_cleanup)
  have b: "\<forall>obj \<in> set (filter ?keep objs). contextId obj \<noteq> impl_id self"
    by simp
  have c: "\<forall>obj \<in> set objs. contextId obj \<noteq> impl_id self \<longrightarrow> obj \<in> set (filter ?keep objs)"
    by simp
  have d: "filter ?keep (filter ?keep objs) = filter ?keep objs"
    by simp
  have e: "filter ?keep (remove1 \<lparr>contextId = impl_id self, object = h\<rparr> objs) = filter ?keep objs"
    by (induction objs) auto
  have f: "getActiveContextId ta = impl_id self \<and>
           unregisterUnsharedGlObject ta h (Some objs) = Some objs'
             \<longrightarrow> filter ?keep objs' = filter ?keep objs"
    using e by (auto simp: unregister_remove1)
  show ?thesis
    unfolding a using b c d f by blast
qed

theorem cleanup_removes_exactly_witness:
  "snd (cleanupUnsharedResources (\<lambda>c current. True) \<lparr>impl_id = 1, addr = 100\<rparr> initial_thread
          [\<lparr>contextId = 1, object = Some 10\<rparr>, \<lparr>contextId = 2, object = Some 20\<rparr>,
           \<lparr>contextId = 1, object = Some 30\<rparr>]) = [\<lparr>contextId = 2, object = Some 20\<rparr>] \<and>
   unregisterUnsharedGlObject (active_thread \<lparr>impl_id = 1, addr = 100\<rparr>) (Some 10)
     (Some [\<lparr>contextId = 1, object = Some 10\<rparr>, \<lparr>contextId = 2, object = Some 20\<rparr>,
            \<lparr>contextId = 1, object = Some 30\<rparr>]) =
     Some [\<lparr>contextId = 2, object = Some 20\<rparr>, \<lparr>contextId = 1, object = Some 30\<rparr>] \<and>
   snd (cleanupUnsharedResources (\<lambda>c current. True) \<lparr>impl_id = 1, addr = 100\<rparr> initial_thread
          [\<lparr>contextId = 2, object = Some 20\<rparr>, \<lparr>contextId = 1, object = Some 30\<rparr>]) =
     [\<lparr>contextId = 2, object = Some 20\<rparr>]"
proof -
  let ?mk = "\<lambda>(c :: GlContext) (current :: bool). True"
  let ?c = "\<lparr>impl_id = 1, addr = 100\<rparr> :: GlContext"
  let ?objs = "[\<lparr>contextId = 1, object = Some 10\<rparr>, \<lparr>contextId = 2, object = Some 20\<rparr>,
                \<lparr>contextId = 1, object = Some 30\<rparr>] :: UnsharedGlObjects"
  let ?objs' = "[\<lparr>contextId = 2, object = Some 20\<rparr>, \<lparr>contextId = 1, object = Some 30\<rparr>]
                 :: UnsharedGlObjects"
  have u: "getActiveContextId (active_thread ?c) = impl_id ?c \<and>
           unregisterUnsharedGlObject (active_thread ?c) (Some 10) (Some ?objs) = Some ?objs'"
    by (simp add: unregisterUnsharedGlObject_def getActiveContextId_def active_thread_def
          erase_def Let_def)
  note inst = cleanup_removes_exactly
               [of ?mk ?c initial_thread ?objs initial_thread "active_thread ?c" "Some 10" ?objs']
  have "snd (cleanupUnsharedResources ?mk ?c initial_thread ?objs) =
          filter (\<lambda>obj. contextId obj \<noteq> impl_id ?c) ?objs"
    using inst by blast
  moreover have "snd (cleanupUnsharedResources ?mk ?c initial_thread ?objs') =
                 snd (cleanupUnsharedResources ?mk ?c initial_thread ?objs)"
    using inst u by blast
  ultimately show ?thesis
    using u by simp
qed

text \<open>
  Claim C5. \<open>unregisterUnsharedGlObject\<close> removes the first entry whose \<open>contextId\<close> is
  the identity of the calling thread's active context and whose pointer equals the
  argument, and no other entry. When no entry matches, in particular when the object was
  registered under another identity only, or when the list has expired, it leaves the list
  as it is. Registering an object and then unregistering it under the same active context
  leaves the length of the list unchanged.
\<close>

theorem unregister_first_match:
  "unregisterUnsharedGlObject t h None = None \<and>
   unregisterUnsharedGlObject t h (Some objs) =
     Some (remove1 \<lparr>contextId = getActiveContextId t, object = h\<rparr> objs) \<and>
   (objs = before @ \<lparr>contextId = getActiveContextId t, object = h\<rparr> # rest \<and>
    \<lparr>contextId = getActiveContextId t, object = h\<rparr> \<notin> set before
      \<longrightarrow> unregisterUnsharedGlObject t h (Some objs) = Some (before @ rest)) \<and>
   ((\<forall>obj \<in> set objs. object obj = h \<longrightarrow> contextId obj \<noteq> getActiveContextId t)
      \<longrightarrow> unregisterUnsharedGlObject t h (Some objs) = Some objs) \<and>
   (getActiveContextId t' = getActiveContextId t
      \<longrightarrow> map_option length
            (unregisterUnsharedGlObject t' h (fst (registerUnsharedGlObject t h weak))) =
          map_option length weak)"
proof -
  let ?e = "\<lparr>contextId = getActiveContextId t, object = h\<rparr>"
  have a: "unregisterUnsharedGlObject t h None = None"
    by (simp add: unregisterUnsharedGlObject_def)
  have b: "unregisterUnsharedGlObject s h (Some xs) =
             Some (remove1 \<lparr>contextId = getActiveContextId s, object = h\<rparr> xs)" for s xs
    by (rule unregister_remove1)
  have c: "objs = before @ ?e # rest \<and> ?e \<notin> set before \<longrightarrow> remove1 ?e objs = before @ rest"
    by (auto simp: remove1_append)
  have d: "(\<forall>obj \<in> set objs. object obj = h \<longrightarrow> contextId obj \<noteq> getActiveContextId t)
             \<longrightarrow> remove1 ?e objs = objs"
    by (auto intro!: remove1_idem)
  have e: "getActiveContextId t' = getActiveContextId t
      \<longrightarrow> map_option length
            (unregisterUnsharedGlObject t' h (fst (registerUnsharedGlObject t h weak))) =
          map_option length weak"
  proof (cases weak)
    case None
    then show ?thesis
      by (simp add: registerUnsharedGlObject_def unregisterUnsharedGlObject_def)
  next
    case (Some xs)
    then show ?thesis
      by (simp add: registerUnsharedGlObject_def b length_remove1)
  qed
  show ?thesis
    unfolding b using a c d e by blast
qed

theorem unregister_first_match_witness:
  "unregisterUnsharedGlObject (active_thread \<lparr>impl_id = 1, addr = 100\<rparr>) (Some 10)
     (Some [\<lparr>contextId = 2, object = Some 10\<rparr>, \<lparr>contextId = 1, object = Some 10\<rparr>,
            \<lparr>contextId = 1, object = Some 10\<rparr>]) =
     Some [\<lparr>contextId = 2, object = Some 10\<rparr>, \<lparr>contextId = 1, object = Some 10\<rparr>] \<and>
   unregisterUnsharedGlObject (active_thread \<lparr>impl_id = 3, addr = 300\<rparr>) (Some 10)
     (Some [\<lparr>contextId = 2, object = Some 10\<rparr>, \<lparr>contextId = 1, object = Some 10\<rparr>,
            \<lparr>contextId = 1, object = Some 10\<rparr>]) =
     Some [\<lparr>contextId = 2, object = Some 10\<rparr>, \<lparr>contextId = 1, object = Some 10\<rparr>,
           \<lparr>contextId = 1, object = Some 10\<rparr>] \<and>
   map_option length
     (unregisterUnsharedGlObject (active_thread \<lparr>impl_id = 1, addr = 100\<rparr>) (Some 10)
        (fst (registerUnsharedGlObject (active_thread \<lparr>impl_id = 1, addr = 100\<rparr>) (Some 10)
                (Some [\<lparr>contextId = 2, object = Some 10\<rparr>])))) = Some 1"
proof -
  let ?c = "\<lparr>impl_id = 1, addr = 100\<rparr> :: GlContext"
  let ?d = "\<lparr>impl_id = 3, addr = 300\<rparr> :: GlContext"
  let ?e1 = "\<lparr>contextId = 1, object = Some 10\<rparr> :: UnsharedGlObject"
  let ?e2 = "\<lparr>contextId = 2, object = Some 10\<rparr> :: UnsharedGlObject"
  have id1: "getActiveContextId (active_thread ?c) = 1"
    by (simp add: getActiveContextId_def active_thread_def)
  have id3: "getActiveContextId (active_thread ?d) = 3"
    by (simp add: getActiveContextId_def active_thread_def)
  have shape: "[?e2, ?e1, ?e1] = [?e2] @ \<lparr>contextId = getActiveContextId (active_thread ?c),
                   object = Some 10\<rparr> # [?e1] \<and>
               \<lparr>contextId = getActiveContextId (active_thread ?c), object = Some 10\<rparr> \<notin> set [?e2]"
    by (simp add: id1)
  have "unregisterUnsharedGlObject (active_thread ?c) (Some 10) (Some [?e2, ?e1, ?e1]) =
          Some ([?e2] @ [?e1])"
    using unregister_first_match [of "active_thread ?c" "Some 10" "[?e2, ?e1, ?e1]" "[?e2]" "[?e1]"]
          shape by blast
  moreover have "\<forall>obj \<in> set [?e2, ?e1, ?e1].
                   object obj = Some 10 \<longrightarrow> contextId obj \<noteq> getActiveContextId (active_thread ?d)"
    by (simp add: id3)
  then have "unregisterUnsharedGlObject (active_thread ?d) (Some 10) (Some [?e2, ?e1, ?e1]) =
          Some [?e2, ?e1, ?e1]"
    using unregister_first_match [of "active_thread ?d" "Some 10" "[?e2, ?e1, ?e1]"] by blast
  moreover have "map_option length
     (unregisterUnsharedGlObject (active_thread ?c) (Some 10)
        (fst (registerUnsharedGlObject (active_thread ?c) (Some 10) (Some [?e2])))) =
     map_option length (Some [?e2])"
    using unregister_first_match [of "active_thread ?c" "Some 10" _ _ _ "active_thread ?c" "Some [?e2]"]
    by blast
  ultimately show ?thesis
    by simp
qed

subsection \<open>Restoring the caller's context after the cleanup\<close>




subsection \<open>Negotiated settings against requested settings\<close>

lemma sint_small:
  fixes w :: u32
  assumes "unat w < 2 ^ 31"
  shows "sint w = int (unat w)"
proof -
  have "int (unat w) < int (2 ^ 31)"
    using assms by (simp only: of_nat_less_iff)
  then have up: "uint w < 2 ^ 31"
    by simp
  have "(0::int) \<le> uint w" and "- (2 ^ 31) \<le> (0::int)"
    by simp_all
  then have low: "- (2 ^ 31) \<le> uint w"
    by (rule order_trans [rotated])
  have "sint w = signed_take_bit (LENGTH(32) - Suc 0) (uint w)"
    by (rule sint_uint)
  also have "LENGTH(32) - Suc 0 = 31"
    by simp
  also have "signed_take_bit 31 (uint w) = uint w"
    using low up by (intro signed_take_bit_int_eq_self)
  finally show ?thesis
    by simp
qed

lemma version_encoding:
  fixes major minor :: u32
  assumes "10 * unat major + unat minor < 2 ^ 31"
  shows "sint (major * 10 + minor) = int (10 * unat major + unat minor)"
proof -
  have "unat (major * 10) = unat major * 10"
    using assms by (simp add: unat_word_ariths)
  then have "unat (major * 10 + minor) = 10 * unat major + unat minor"
    using assms by (simp add: unat_word_ariths)
  then show ?thesis
    using assms by (simp add: sint_small)
qed

lemma version_lower_encoded:
  assumes "version_lower g r"
      and "majorVersion g < majorVersion r \<longrightarrow> unat (minorVersion g) \<le> 9"
      and "10 * unat (majorVersion r) + unat (minorVersion r) < 2 ^ 31"
  shows "sint (majorVersion g * 10 + minorVersion g) < sint (majorVersion r * 10 + minorVersion r)"
proof -
  have lt: "10 * unat (majorVersion g) + unat (minorVersion g) <
            10 * unat (majorVersion r) + unat (minorVersion r)"
    using assms(1,2) by (auto simp: version_lower_def word_less_nat_alt)
  then have g: "10 * unat (majorVersion g) + unat (minorVersion g) < 2 ^ 31"
    using assms(3) by (rule less_trans)
  from lt have "int (10 * unat (majorVersion g) + unat (minorVersion g)) <
                int (10 * unat (majorVersion r) + unat (minorVersion r))"
    by (simp only: of_nat_less_iff)
  then show ?thesis
    by (simp only: version_encoding [OF g] version_encoding [OF assms(3)])
qed

lemma missing_flag_differs:
  "missing_flag flag g r \<Longrightarrow> attributeFlags g \<noteq> attributeFlags r"
  by (auto simp: missing_flag_def)

lemma checkSettings_weaker:
  assumes "weaker_than_requested attr g r"
      and "\<not> weaker_besides_version attr g r \<longrightarrow>
             (majorVersion g < majorVersion r \<longrightarrow> unat (minorVersion g) \<le> 9) \<and>
             10 * unat (majorVersion r) + unat (minorVersion r) < 2 ^ 31"
  shows "checkSettings g r t = err_write (SettingsNotMet r g) t"
proof -
  have v: "\<not> weaker_besides_version attr g r \<longrightarrow>
           sint (majorVersion g * 10 + minorVersion g) < sint (majorVersion r * 10 + minorVersion r)"
    using assms version_lower_encoded unfolding weaker_than_requested_def by blast
  have f: "missing_flag (Core attr) g r \<or> missing_flag (Debug attr) g r
             \<longrightarrow> attributeFlags g \<noteq> attributeFlags r"
    using missing_flag_differs by blast
  have "attributeFlags g \<noteq> attributeFlags r \<or>
        sint (majorVersion g * 10 + minorVersion g) < sint (majorVersion r * 10 + minorVersion r) \<or>
        stencilBits g < stencilBits r \<or>
        antialiasingLevel g < antialiasingLevel r \<or>
        depthBits g < depthBits r \<or>
        (\<not> sRgbCapable g \<and> sRgbCapable r)"
    using v f unfolding weaker_besides_version_def by blast
  then show ?thesis
    unfolding checkSettings_def Let_def by (simp only: if_True)
qed

lemma initialize_ok:
  "fst (initialize attr makeCurrent d c m0 r t) = functions_loaded d"
proof (cases "functions_loaded d")
  case False
  then show ?thesis
    unfolding initialize_def Let_def by (simp add: functions_loaded_def)
next
  case True
  then have l: "\<not> (\<not> getFunction d ''glGetIntegerv'' \<or> \<not> getFunction d ''glGetError'' \<or>
            \<not> getFunction d ''glGetString'' \<or> \<not> getFunction d ''glEnable'' \<or>
            \<not> getFunction d ''glIsEnabled'')"
    by (simp add: functions_loaded_def)
  show ?thesis
    unfolding initialize_def Let_def
    by (simp only: l if_False True split: prod.split) simp
qed

lemma create_result:
  "\<exists>t3. create attr makeCurrent d gc made r t =
     (case initialize attr makeCurrent d (fst made) (snd made) r t3 of
        (ok, m, t4) \<Rightarrow>
          if \<not> ok
          then (None, GlContext_destructor (fst made)
                  (err_write (Line ''Could not initialize context in GlContext::create()'') t4))
          else (Some (fst made, m), checkSettings m r t4))"
  unfolding create_def Let_def by blast

text \<open>
  Claim C7, as amended. \<open>checkSettings\<close> compares the versions as \<open>10 * major + minor\<close>,
  computed in \<open>unsigned int\<close> and read as \<open>int\<close>. Settings that are weaker than the
  requested ones in depth bits, stencil bits, antialiasing level, core or debug flag, or
  sRGB capability make \<open>checkSettings\<close> write exactly one diagnostic and change nothing
  else. So do settings whose only shortfall is a lower version, provided that the number
  \<open>10 * major + minor\<close> of the requested version, taken without wrap-around, is below
  \<open>2 ^ 31\<close> and that the granted minor version is at most 9 when the granted major version
  is the lower one. \<open>create\<close> returns the context whenever the functions of the driver
  were loaded, whatever the comparison says, and the diagnostic is the last thing it
  writes.
\<close>

theorem settings_shortfall_diagnosed:
  assumes "weaker_than_requested attr g r"
      and "\<not> weaker_besides_version attr g r \<longrightarrow>
             (majorVersion g < majorVersion r \<longrightarrow> unat (minorVersion g) \<le> 9) \<and>
             10 * unat (majorVersion r) + unat (minorVersion r) < 2 ^ 31"
  shows "err (checkSettings g r t) = err t @ [SettingsNotMet r g] \<and>
         checkSettings g r t = t\<lparr>err := err t @ [SettingsNotMet r g]\<rparr> \<and>
         (functions_loaded d \<longrightarrow> fst (create attr makeCurrent d gc made r t') \<noteq> None) \<and>
         (fst (create attr makeCurrent d gc made r t') = Some (c, g) \<longrightarrow>
            (\<exists>t3. snd (create attr makeCurrent d gc made r t') = checkSettings g r t3 \<and>
                  err (snd (create attr makeCurrent d gc made r t')) =
                    err t3 @ [SettingsNotMet r g]))"
proof -
  have w: "checkSettings g r s = err_write (SettingsNotMet r g) s" for s
    using assms by (rule checkSettings_weaker)
  have a: "err (checkSettings g r t) = err t @ [SettingsNotMet r g]"
    by (simp add: w err_write_def)
  have b: "checkSettings g r t = t\<lparr>err := err t @ [SettingsNotMet r g]\<rparr>"
    by (simp add: w err_write_def)
  obtain t3 where cr: "create attr makeCurrent d gc made r t' =
     (case initialize attr makeCurrent d (fst made) (snd made) r t3 of
        (ok, m, t4) \<Rightarrow>
          if \<not> ok
          then (None, GlContext_destructor (fst made)
                  (err_write (Line ''Could not initialize context in GlContext::create()'') t4))
          else (Some (fst made, m), checkSettings m r t4))"
    using create_result by blast
  obtain ok m t4 where i: "initialize attr makeCurrent d (fst made) (snd made) r t3 = (ok, m, t4)"
    by (cases "initialize attr makeCurrent d (fst made) (snd made) r t3") auto
  have ok: "ok = functions_loaded d"
    using initialize_ok [of attr makeCurrent d "fst made" "snd made" r t3] i by simp
  have c: "functions_loaded d \<longrightarrow> fst (create attr makeCurrent d gc made r t') \<noteq> None"
    using cr i ok by simp
  have d: "fst (create attr makeCurrent d gc made r t') = Some (c, g) \<longrightarrow>
            (\<exists>t3. snd (create attr makeCurrent d gc made r t') = checkSettings g r t3 \<and>
                  err (snd (create attr makeCurrent d gc made r t')) =
                    err t3 @ [SettingsNotMet r g])"
  proof
    assume "fst (create attr makeCurrent d gc made r t') = Some (c, g)"
    then have "ok" "m = g"
      using cr i by (auto split: if_splits)
    then have "snd (create attr makeCurrent d gc made r t') = checkSettings g r t4"
      using cr i by simp
    moreover have "err (checkSettings g r t4) = err t4 @ [SettingsNotMet r g]"
      by (simp add: w err_write_def)
    ultimately show "\<exists>t3. snd (create attr makeCurrent d gc made r t') = checkSettings g r t3 \<and>
                  err (snd (create attr makeCurrent d gc made r t')) =
                    err t3 @ [SettingsNotMet r g]"
      by auto
  qed
  show ?thesis using a b c d by blast
qed

theorem settings_shortfall_diagnosed_witness:
  "weaker_than_requested \<lparr>Default = 0, Core = 1, Debug = 4\<rparr>
     \<lparr>depthBits = 16, stencilBits = 0, antialiasingLevel = 0, majorVersion = 4,
      minorVersion = 6, attributeFlags = 0, sRgbCapable = False\<rparr>
     \<lparr>depthBits = 24, stencilBits = 0, antialiasingLevel = 4, majorVersion = 1,
      minorVersion = 1, attributeFlags = 0, sRgbCapable = False\<rparr> \<and>
   create \<lparr>Default = 0, Core = 1, Debug = 4\<rparr> (\<lambda>c current. True) (desktop_driver 4 6)
     \<lparr>sharedContext = \<lparr>impl_id = 1, addr = 100\<rparr>\<rparr>
     (\<lparr>impl_id = 2, addr = 200\<rparr>,
      \<lparr>depthBits = 16, stencilBits = 0, antialiasingLevel = 0, majorVersion = 1,
       minorVersion = 1, attributeFlags = 0, sRgbCapable = False\<rparr>)
     \<lparr>depthBits = 24, stencilBits = 0, antialiasingLevel = 4, majorVersion = 1,
      minorVersion = 1, attributeFlags = 0, sRgbCapable = False\<rparr>
     initial_thread =
     (Some (\<lparr>impl_id = 2, addr = 200\<rparr>,
            \<lparr>depthBits = 16, stencilBits = 0, antialiasingLevel = 0, majorVersion = 4,
             minorVersion = 6, attributeFlags = 0, sRgbCapable = False\<rparr>),
      \<lparr>currentContext =
         \<lparr>id_cc = 2, ptr = Some \<lparr>impl_id = 2, addr = 200\<rparr>, transientCount = 0\<rparr>,
       transientContext = None,
       err = [SettingsNotMet
                \<lparr>depthBits = 24, stencilBits = 0, antialiasingLevel = 4, majorVersion = 1,
                 minorVersion = 1, attributeFlags = 0, sRgbCapable = False\<rparr>
                \<lparr>depthBits = 16, stencilBits = 0, antialiasingLevel = 0, majorVersion = 4,
                 minorVersion = 6, attributeFlags = 0, sRgbCapable = False\<rparr>]\<rparr>) \<and>
   \<not> weaker_besides_version \<lparr>Default = 0, Core = 1, Debug = 4\<rparr>
     \<lparr>depthBits = 24, stencilBits = 8, antialiasingLevel = 0, majorVersion = 2,
      minorVersion = 1, attributeFlags = 0, sRgbCapable = False\<rparr>
     \<lparr>depthBits = 24, stencilBits = 8, antialiasingLevel = 0, majorVersion = 3,
      minorVersion = 3, attributeFlags = 0, sRgbCapable = False\<rparr> \<and>
   err (checkSettings
     \<lparr>depthBits = 24, stencilBits = 8, antialiasingLevel = 0, majorVersion = 2,
      minorVersion = 1, attributeFlags = 0, sRgbCapable = False\<rparr>
     \<lparr>depthBits = 24, stencilBits = 8, antialiasingLevel = 0, majorVersion = 3,
      minorVersion = 3, attributeFlags = 0, sRgbCapable = False\<rparr>
     initial_thread) =
     [SettingsNotMet
        \<lparr>depthBits = 24, stencilBits = 8, antialiasingLevel = 0, majorVersion = 3,
         minorVersion = 3, attributeFlags = 0, sRgbCapable = False\<rparr>
        \<lparr>depthBits = 24, stencilBits = 8, antialiasingLevel = 0, majorVersion = 2,
         minorVersion = 1, attributeFlags = 0, sRgbCapable = False\<rparr>]"
proof -
  let ?attr = "\<lparr>Default = 0, Core = 1, Debug = 4\<rparr>"
  let ?mk = "\<lambda>(c :: GlContext) (current :: bool). True"
  let ?gc = "\<lparr>sharedContext = \<lparr>impl_id = 1, addr = 100\<rparr>\<rparr>"
  let ?c = "\<lparr>impl_id = 2, addr = 200\<rparr> :: GlContext"
  let ?m0 = "\<lparr>depthBits = 16, stencilBits = 0, antialiasingLevel = 0, majorVersion = 1,
       minorVersion = 1, attributeFlags = 0, sRgbCapable = False\<rparr>"
  let ?g = "\<lparr>depthBits = 16, stencilBits = 0, antialiasingLevel = 0, majorVersion = 4,
      minorVersion = 6, attributeFlags = 0, sRgbCapable = False\<rparr>"
  let ?r = "\<lparr>depthBits = 24, stencilBits = 0, antialiasingLevel = 4, majorVersion = 1,
      minorVersion = 1, attributeFlags = 0, sRgbCapable = False\<rparr>"
  let ?g2 = "\<lparr>depthBits = 24, stencilBits = 8, antialiasingLevel = 0, majorVersion = 2,
      minorVersion = 1, attributeFlags = 0, sRgbCapable = False\<rparr>"
  let ?r2 = "\<lparr>depthBits = 24, stencilBits = 8, antialiasingLevel = 0, majorVersion = 3,
      minorVersion = 3, attributeFlags = 0, sRgbCapable = False\<rparr>"
  let ?t3 = "active_thread ?c"
  have w: "weaker_than_requested ?attr ?g ?r"
    by (simp add: weaker_than_requested_def weaker_besides_version_def)
  have b: "\<not> weaker_besides_version ?attr ?g ?r \<longrightarrow>
             (majorVersion ?g < majorVersion ?r \<longrightarrow> unat (minorVersion ?g) \<le> 9) \<and>
             10 * unat (majorVersion ?r) + unat (minorVersion ?r) < 2 ^ 31"
    by simp
  have w2: "weaker_than_requested ?attr ?g2 ?r2"
    by (simp add: weaker_than_requested_def version_lower_def)
  have n2: "\<not> weaker_besides_version ?attr ?g2 ?r2"
    by (simp add: weaker_besides_version_def missing_flag_def)
  have b2: "\<not> weaker_besides_version ?attr ?g2 ?r2 \<longrightarrow>
             (majorVersion ?g2 < majorVersion ?r2 \<longrightarrow> unat (minorVersion ?g2) \<le> 9) \<and>
             10 * unat (majorVersion ?r2) + unat (minorVersion ?r2) < 2 ^ 31"
    by simp
  have v: "initialize_version (desktop_driver 4 6) ?t3 = ((4, 6), ?t3)"
    by (simp add: initialize_version_def desktop_driver_def query_int_def Let_def
          GL_MAJOR_VERSION_def GL_MINOR_VERSION_def GL_INVALID_ENUM_def)
  have q: "query_int (desktop_driver 4 6) GL_CONTEXT_FLAGS 0 = 0 \<and>
           query_int (desktop_driver 4 6) GL_CONTEXT_PROFILE_MASK 0 = 0"
    by (simp add: desktop_driver_def query_int_def GL_MAJOR_VERSION_def GL_MINOR_VERSION_def
          GL_CONTEXT_FLAGS_def GL_CONTEXT_PROFILE_MASK_def)
  have f: "initialize_attributes ?attr (desktop_driver 4 6) 4 6 = 0"
    unfolding initialize_attributes_def Let_def by (simp add: q)
  have s: "setActive ?mk ?c True initial_thread = (True, ?t3)"
    by (simp add: setActive_def initial_thread_def active_thread_def)
  have l: "getFunction (desktop_driver 4 6) = (\<lambda>name. True)"
    by (simp add: desktop_driver_def)
  have i: "initialize ?attr ?mk (desktop_driver 4 6) ?c ?m0 ?r initial_thread = (True, ?g, ?t3)"
    unfolding initialize_def Let_def by (simp add: s v f l)
  have g0: "GraphicsContext_setActive ?mk ?gc True initial_thread =
              (True, active_thread \<lparr>impl_id = 1, addr = 100\<rparr>)"
    by (simp add: GraphicsContext_setActive_def setActive_def initial_thread_def
          active_thread_def)
  have g1: "GraphicsContext_setActive ?mk ?gc False (active_thread \<lparr>impl_id = 1, addr = 100\<rparr>) =
              (True, initial_thread)"
    by (simp add: GraphicsContext_setActive_def setActive_def initial_thread_def
          active_thread_def)
  have cr: "create ?attr ?mk (desktop_driver 4 6) ?gc (?c, ?m0) ?r initial_thread =
              (Some (?c, ?g), checkSettings ?g ?r ?t3)"
    unfolding create_def Let_def by (simp add: g0 g1 i)
  have "checkSettings ?g ?r ?t3 = ?t3\<lparr>err := err ?t3 @ [SettingsNotMet ?r ?g]\<rparr>"
    using settings_shortfall_diagnosed [OF w b, of ?t3] by blast
  then have one: "checkSettings ?g ?r ?t3 =
      \<lparr>currentContext = \<lparr>id_cc = 2, ptr = Some ?c, transientCount = 0\<rparr>,
       transientContext = None, err = [SettingsNotMet ?r ?g]\<rparr>"
    by (simp add: active_thread_def)
  have "err (checkSettings ?g2 ?r2 initial_thread) =
          err initial_thread @ [SettingsNotMet ?r2 ?g2]"
    using settings_shortfall_diagnosed [OF w2 b2, of initial_thread] by blast
  then have two: "err (checkSettings ?g2 ?r2 initial_thread) = [SettingsNotMet ?r2 ?g2]"
    by (simp add: initial_thread_def)
  show ?thesis
    using w cr one n2 two by simp
qed

text \<open>
  Claim C7 as stated fails where the encoding does not follow the order of the versions.
  \<^item> A granted version 2.15 against a requested version 3.0 is encoded as 35 against 30.
  \<^item> A requested version 429496730.0 is encoded, with wrap-around, as 4: a granted version
    1.1 is encoded as 11.
  \<^item> A requested version 214748364.8 is encoded as \<open>2 ^ 31\<close>, which is negative as an
    \<open>int\<close>: a granted version 1.1 is encoded as 11.

  In each case the granted version is the lower one and no diagnostic is written.
\<close>

theorem version_encoding_counterexample:
  "weaker_than_requested \<lparr>Default = 0, Core = 1, Debug = 4\<rparr>
     \<lparr>depthBits = 24, stencilBits = 8, antialiasingLevel = 0, majorVersion = 2,
      minorVersion = 15, attributeFlags = 0, sRgbCapable = False\<rparr>
     \<lparr>depthBits = 24, stencilBits = 8, antialiasingLevel = 0, majorVersion = 3,
      minorVersion = 0, attributeFlags = 0, sRgbCapable = False\<rparr> \<and>
   err (checkSettings
     \<lparr>depthBits = 24, stencilBits = 8, antialiasingLevel = 0, majorVersion = 2,
      minorVersion = 15, attributeFlags = 0, sRgbCapable = False\<rparr>
     \<lparr>depthBits = 24, stencilBits = 8, antialiasingLevel = 0, majorVersion = 3,
      minorVersion = 0, attributeFlags = 0, sRgbCapable = False\<rparr>
     initial_thread) = [] \<and>
   weaker_than_requested \<lparr>Default = 0, Core = 1, Debug = 4\<rparr>
     \<lparr>depthBits = 24, stencilBits = 8, antialiasingLevel = 0, majorVersion = 1,
      minorVersion = 1, attributeFlags = 0, sRgbCapable = False\<rparr>
     \<lparr>depthBits = 24, stencilBits = 8, antialiasingLevel = 0, majorVersion = 429496730,
      minorVersion = 0, attributeFlags = 0, sRgbCapable = False\<rparr> \<and>
   err (checkSettings
     \<lparr>depthBits = 24, stencilBits = 8, antialiasingLevel = 0, majorVersion = 1,
      minorVersion = 1, attributeFlags = 0, sRgbCapable = False\<rparr>
     \<lparr>depthBits = 24, stencilBits = 8, antialiasingLevel = 0, majorVersion = 429496730,
      minorVersion = 0, attributeFlags = 0, sRgbCapable = False\<rparr>
     initial_thread) = [] \<and>
   weaker_than_requested \<lparr>Default = 0, Core = 1, Debug = 4\<rparr>
     \<lparr>depthBits = 24, stencilBits = 8, antialiasingLevel = 0, majorVersion = 1,
      minorVersion = 1, attributeFlags = 0, sRgbCapable = False\<rparr>
     \<lparr>depthBits = 24, stencilBits = 8, antialiasingLevel = 0, majorVersion = 214748364,
      minorVersion = 8, attributeFlags = 0, sRgbCapable = False\<rparr> \<and>
   err (checkSettings
     \<lparr>depthBits = 24, stencilBits = 8, antialiasingLevel = 0, majorVersion = 1,
      minorVersion = 1, attributeFlags = 0, sRgbCapable = False\<rparr>
     \<lparr>depthBits = 24, stencilBits = 8, antialiasingLevel = 0, majorVersion = 214748364,
      minorVersion = 8, attributeFlags = 0, sRgbCapable = False\<rparr>
     initial_thread) = []"
  by (simp add: weaker_than_requested_def version_lower_def checkSettings_def
        initial_thread_def Let_def)

text \<open>
  The diagnostic of \<open>checkSettings\<close> is not always the only one of a creation:
  when sRGB is requested and the driver does not enable it, \<open>initialize\<close> has already
  written its own warning. The creation still succeeds.
\<close>

lemma create_srgb_refused_example:
  "create \<lparr>Default = 0, Core = 1, Debug = 4\<rparr> (\<lambda>c current. True)
     ((desktop_driver 4 6)\<lparr>glIsEnabled := \<lambda>cap. GL_FALSE\<rparr>)
     \<lparr>sharedContext = \<lparr>impl_id = 1, addr = 100\<rparr>\<rparr>
     (\<lparr>impl_id = 2, addr = 200\<rparr>,
      \<lparr>depthBits = 24, stencilBits = 8, antialiasingLevel = 0, majorVersion = 4,
       minorVersion = 6, attributeFlags = 0, sRgbCapable = True\<rparr>)
     \<lparr>depthBits = 24, stencilBits = 8, antialiasingLevel = 0, majorVersion = 4,
      minorVersion = 6, attributeFlags = 0, sRgbCapable = True\<rparr>
     initial_thread =
     (Some (\<lparr>impl_id = 2, addr = 200\<rparr>,
            \<lparr>depthBits = 24, stencilBits = 8, antialiasingLevel = 0, majorVersion = 4,
             minorVersion = 6, attributeFlags = 0, sRgbCapable = False\<rparr>),
      \<lparr>currentContext =
         \<lparr>id_cc = 2, ptr = Some \<lparr>impl_id = 2, addr = 200\<rparr>, transientCount = 0\<rparr>,
       transientContext = None,
       err = [Line ''Warning: Failed to enable GL_FRAMEBUFFER_SRGB'',
              SettingsNotMet
                \<lparr>depthBits = 24, stencilBits = 8, antialiasingLevel = 0, majorVersion = 4,
                 minorVersion = 6, attributeFlags = 0, sRgbCapable = True\<rparr>
                \<lparr>depthBits = 24, stencilBits = 8, antialiasingLevel = 0, majorVersion = 4,
                 minorVersion = 6, attributeFlags = 0, sRgbCapable = False\<rparr>]\<rparr>)"
proof -
  let ?attr = "\<lparr>Default = 0, Core = 1, Debug = 4\<rparr>"
  let ?mk = "\<lambda>(c :: GlContext) (current :: bool). True"
  let ?d = "(desktop_driver 4 6)\<lparr>glIsEnabled := \<lambda>cap. GL_FALSE\<rparr>"
  let ?gc = "\<lparr>sharedContext = \<lparr>impl_id = 1, addr = 100\<rparr>\<rparr>"
  let ?c = "\<lparr>impl_id = 2, addr = 200\<rparr> :: GlContext"
  let ?r = "\<lparr>depthBits = 24, stencilBits = 8, antialiasingLevel = 0, majorVersion = 4,
      minorVersion = 6, attributeFlags = 0, sRgbCapable = True\<rparr>"
  let ?g = "\<lparr>depthBits = 24, stencilBits = 8, antialiasingLevel = 0, majorVersion = 4,
      minorVersion = 6, attributeFlags = 0, sRgbCapable = False\<rparr>"
  let ?t3 = "active_thread ?c"
  let ?t4 = "err_write (Line ''Warning: Failed to enable GL_FRAMEBUFFER_SRGB'') ?t3"
  have v: "initialize_version ?d ?t3 = ((4, 6), ?t3)"
    by (simp add: initialize_version_def desktop_driver_def query_int_def Let_def
          GL_MAJOR_VERSION_def GL_MINOR_VERSION_def GL_INVALID_ENUM_def)
  have q: "query_int ?d GL_CONTEXT_FLAGS 0 = 0 \<and> query_int ?d GL_CONTEXT_PROFILE_MASK 0 = 0"
    by (simp add: desktop_driver_def query_int_def GL_MAJOR_VERSION_def GL_MINOR_VERSION_def
          GL_CONTEXT_FLAGS_def GL_CONTEXT_PROFILE_MASK_def)
  have f: "initialize_attributes ?attr ?d 4 6 = 0"
    unfolding initialize_attributes_def Let_def by (simp add: q)
  have s: "setActive ?mk ?c True initial_thread = (True, ?t3)"
    by (simp add: setActive_def initial_thread_def active_thread_def)
  have l: "getFunction ?d = (\<lambda>name. True)" and e: "glIsEnabled ?d = (\<lambda>cap. GL_FALSE)"
    by (simp_all add: desktop_driver_def)
  have i: "initialize ?attr ?mk ?d ?c ?r ?r initial_thread = (True, ?g, ?t4)"
    unfolding initialize_def Let_def by (simp add: s v f l e)
  have g0: "GraphicsContext_setActive ?mk ?gc True initial_thread =
              (True, active_thread \<lparr>impl_id = 1, addr = 100\<rparr>)"
    by (simp add: GraphicsContext_setActive_def setActive_def initial_thread_def
          active_thread_def)
  have g1: "GraphicsContext_setActive ?mk ?gc False (active_thread \<lparr>impl_id = 1, addr = 100\<rparr>) =
              (True, initial_thread)"
    by (simp add: GraphicsContext_setActive_def setActive_def initial_thread_def
          active_thread_def)
  have cr: "create ?attr ?mk ?d ?gc (?c, ?r) ?r initial_thread =
              (Some (?c, ?g), checkSettings ?g ?r ?t4)"
    unfolding create_def Let_def by (simp add: g0 g1 i)
  have "checkSettings ?g ?r ?t4 = err_write (SettingsNotMet ?r ?g) ?t4"
    by (simp add: checkSettings_def)
  then show ?thesis
    using cr by (simp add: err_write_def active_thread_def)
qed

subsection \<open>Detection of the version\<close>














end
